theory Spec2Isabelle
  imports Complex_Main
begin

section \<open>Numbers, strings and time values\<close>

text \<open>
  The repository holds two implementations of the same four tools: one written against the
  built-in \<^verbatim>\<open>Date\<close> object (\<^verbatim>\<open>src/mcp/server.ts\<close> lines 1-241, \<^verbatim>\<open>src/mcp/utils.ts\<close>, and the
  older single-file server) and one written against the Luxon library
  (\<^verbatim>\<open>src/mcp/server.ts\<close> lines 241-489 and the Luxon version of \<^verbatim>\<open>utils.ts\<close>).
  Both are embedded here. A JavaScript number is modelled as an exact rational (an integer
  where the code only ever holds integers); a time value is the integer count of
  milliseconds since 1970-01-01T00:00:00Z. The rounding of IEEE doubles is not modelled.
  A JavaScript string is a list of UTF-16 code units, so the Japanese phrases of the
  \<^verbatim>\<open>Date\<close>-based formatter are written with their code points.
\<close>

type_synonym number = rat
type_synonym jsstring = "nat list"

definition asc :: "string \<Rightarrow> jsstring" where
  "asc s = map of_char s"

definition digit_char :: "nat \<Rightarrow> char" where
  "digit_char n = ''0123456789'' ! n"

fun digits :: "nat \<Rightarrow> string" where
  \<comment> \<open>The decimal digits of a natural number.\<close>
  "digits n = (if n < 10 then [digit_char n] else digits (n div 10) @ [digit_char (n mod 10)])"

declare digits.simps [simp del]

definition int_to_string :: "int \<Rightarrow> jsstring" where
  \<comment> \<open>Number-to-string conversion of an integer, as a template literal performs it.\<close>
  "int_to_string v = (if v < 0 then asc (CHR ''-'' # digits (nat (- v))) else asc (digits (nat v)))"

section \<open>ECMAScript time arithmetic\<close>

text \<open>
  The abstract operations of the ECMAScript specification on time values (Day,
  TimeWithinDay, DayFromYear, YearFromTime, MonthFromTime, DateFromTime, WeekDay, MakeTime,
  MakeDay, MakeDate). Both implementations rest on them: the first through the
  \<^verbatim>\<open>Date\<close> getters and setters, the second through Luxon, which reads calendar fields with
  \<^verbatim>\<open>getUTC*\<close> and builds time values with \<^verbatim>\<open>Date.UTC\<close>.
  \<^verbatim>\<open>div\<close> and \<^verbatim>\<open>mod\<close> on \<^typ>\<open>int\<close> are floor division and its
  non-negative remainder, as in the specification.
\<close>

definition msPerDay :: int where "msPerDay = 86400000"
definition msPerHour :: int where "msPerHour = 3600000"
definition msPerMinute :: int where "msPerMinute = 60000"
definition msPerSecond :: int where "msPerSecond = 1000"

definition Day :: "int \<Rightarrow> int" where
  "Day t = t div msPerDay"

definition TimeWithinDay :: "int \<Rightarrow> int" where
  "TimeWithinDay t = t mod msPerDay"

definition DaysInYear :: "int \<Rightarrow> int" where
  "DaysInYear y =
     (if y mod 4 \<noteq> 0 then 365 else if y mod 100 \<noteq> 0 then 366
      else if y mod 400 \<noteq> 0 then 365 else 366)"

definition DayFromYear :: "int \<Rightarrow> int" where
  "DayFromYear y =
     365 * (y - 1970) + (y - 1969) div 4 - (y - 1901) div 100 + (y - 1601) div 400"

definition YearOfDay :: "int \<Rightarrow> int" where
  \<comment> \<open>The year that holds day number \<open>d\<close>: an estimate from the mean year length,
      corrected by at most one year (see \<open>YearOfDay_bounds\<close>).\<close>
  "YearOfDay d =
     (let y = 1970 + (d * 400) div 146097 in
      if DayFromYear (y + 1) \<le> d then y + 1
      else if d < DayFromYear y then y - 1 else y)"

definition YearFromTime :: "int \<Rightarrow> int" where
  "YearFromTime t = YearOfDay (Day t)"

definition InLeapYear :: "int \<Rightarrow> int" where
  "InLeapYear t = (if DaysInYear (YearFromTime t) = 366 then 1 else 0)"

definition DayWithinYear :: "int \<Rightarrow> int" where
  "DayWithinYear t = Day t - DayFromYear (YearFromTime t)"

definition MonthFromTime :: "int \<Rightarrow> int" where
  "MonthFromTime t =
     (let d = DayWithinYear t; l = InLeapYear t in
      if d < 31 then 0 else if d < 59 + l then 1 else if d < 90 + l then 2
      else if d < 120 + l then 3 else if d < 151 + l then 4 else if d < 181 + l then 5
      else if d < 212 + l then 6 else if d < 243 + l then 7 else if d < 273 + l then 8
      else if d < 304 + l then 9 else if d < 334 + l then 10 else 11)"

definition DateFromTime :: "int \<Rightarrow> int" where
  "DateFromTime t =
     (let d = DayWithinYear t; l = InLeapYear t; m = MonthFromTime t in
      if m = 0 then d + 1 else if m = 1 then d - 30 else if m = 2 then d - 58 - l
      else if m = 3 then d - 89 - l else if m = 4 then d - 119 - l
      else if m = 5 then d - 150 - l else if m = 6 then d - 180 - l
      else if m = 7 then d - 211 - l else if m = 8 then d - 242 - l
      else if m = 9 then d - 272 - l else if m = 10 then d - 303 - l else d - 333 - l)"

definition WeekDay :: "int \<Rightarrow> int" where
  "WeekDay t = (Day t + 4) mod 7"

definition HourFromTime :: "int \<Rightarrow> int" where
  "HourFromTime t = (t div msPerHour) mod 24"

definition MinFromTime :: "int \<Rightarrow> int" where
  "MinFromTime t = (t div msPerMinute) mod 60"

definition SecFromTime :: "int \<Rightarrow> int" where
  "SecFromTime t = (t div msPerSecond) mod 60"

definition msFromTime :: "int \<Rightarrow> int" where
  "msFromTime t = t mod msPerSecond"

definition MakeTime :: "int \<Rightarrow> int \<Rightarrow> int \<Rightarrow> int \<Rightarrow> int" where
  "MakeTime hour minute sec ms =
     hour * msPerHour + minute * msPerMinute + sec * msPerSecond + ms"

definition MonthStart :: "int \<Rightarrow> int \<Rightarrow> int" where
  \<comment> \<open>Day within the year \<open>y\<close> of the first day of month \<open>mn\<close> (0 = January).\<close>
  "MonthStart y mn =
     (let l = (if DaysInYear y = 366 then 1 else 0) in
      if mn = 0 then 0 else if mn = 1 then 31 else if mn = 2 then 59 + l
      else if mn = 3 then 90 + l else if mn = 4 then 120 + l else if mn = 5 then 151 + l
      else if mn = 6 then 181 + l else if mn = 7 then 212 + l else if mn = 8 then 243 + l
      else if mn = 9 then 273 + l else if mn = 10 then 304 + l else 334 + l)"

definition MakeDay :: "int \<Rightarrow> int \<Rightarrow> int \<Rightarrow> int" where
  \<comment> \<open>The month may lie outside 0..11 and the date outside the month: both carry over.\<close>
  "MakeDay year month date =
     (let ym = year + month div 12; mn = month mod 12 in
      DayFromYear ym + MonthStart ym mn + date - 1)"

definition MakeDate :: "int \<Rightarrow> int \<Rightarrow> int" where
  "MakeDate day time = day * msPerDay + time"

definition maxTime :: int where
  \<comment> \<open>Time values beyond this magnitude are NaN (TimeClip).\<close>
  "maxTime = 8640000000000000"

definition TimeClip :: "int \<Rightarrow> int option" where
  "TimeClip t = (if \<bar>t\<bar> > maxTime then None else Some t)"

named_theorems es_defs "unfolding rules of the time arithmetic"

lemmas [es_defs] =
  msPerDay_def msPerHour_def msPerMinute_def msPerSecond_def Day_def TimeWithinDay_def
  DaysInYear_def DayFromYear_def YearOfDay_def YearFromTime_def InLeapYear_def
  DayWithinYear_def MonthFromTime_def DateFromTime_def WeekDay_def HourFromTime_def
  MinFromTime_def SecFromTime_def msFromTime_def MakeTime_def MonthStart_def MakeDay_def
  MakeDate_def maxTime_def TimeClip_def

section \<open>The Date-based implementation\<close>

subsection \<open>utils.ts: getHumanReadableDiff\<close>

text \<open>
  \<^verbatim>\<open>getHumanReadableDiff(diffMs, isPast)\<close> walks a fixed table of units, largest first,
  and renders the first one whose whole count is positive, followed by the Japanese word
  for "before" or "after"; when none is positive it answers the word for "now".
\<close>

definition human_units :: "(jsstring \<times> int) list" where
  "human_units =
     [([0x5E74], 365 * 24 * 60 * 60 * 1000),
      ([0x30F6, 0x6708], 30 * 24 * 60 * 60 * 1000),
      ([0x9031, 0x9593], 7 * 24 * 60 * 60 * 1000),
      ([0x65E5], 24 * 60 * 60 * 1000),
      ([0x6642, 0x9593], 60 * 60 * 1000),
      ([0x5206], 60 * 1000),
      ([0x79D2], 1000)]"

fun human_loop :: "(jsstring \<times> int) list \<Rightarrow> int \<Rightarrow> bool \<Rightarrow> jsstring" where
  "human_loop [] diffMs isPast = [0x4ECA]"
| "human_loop ((name, ms) # units) diffMs isPast =
     (let v = diffMs div ms in
      if v > 0 then int_to_string v @ name @ (if isPast then [0x524D] else [0x5F8C])
      else human_loop units diffMs isPast)"

definition getHumanReadableDiff :: "int \<Rightarrow> bool \<Rightarrow> jsstring" where
  "getHumanReadableDiff diffMs isPast = human_loop human_units diffMs isPast"

subsection \<open>server.ts: get\_time\_difference\<close>

text \<open>
  The handler reads the clock once (\<open>now\<close>) and builds the target from the argument
  with \<^verbatim>\<open>new Date(target_date)\<close>. The time value of that \<^verbatim>\<open>Date\<close> is the input here:
  \<open>None\<close> is NaN, the value of an unparsable literal, for which the handler throws.
  Every handler catches what is thrown in it and answers an error text instead of a
  result; the errors are: an unparsable date (thrown by the handler itself), a time value
  out of range (thrown by \<^verbatim>\<open>toISOString\<close>) and a locale that \<^verbatim>\<open>Intl\<close> refuses (thrown where
  a date is rendered for people). This handler takes no locale and renders no date.
\<close>

datatype error = InvalidDateFormat | InvalidTimeValue | InvalidLocale

record difference =
  milliseconds :: int
  seconds :: int
  minutes :: int
  hours :: int
  days :: int
  weeks :: int
  months :: int
  years :: int

datatype diff_unit = UnitSeconds | UnitMinutes | UnitHours | UnitDays | UnitAll

datatype difference_view = Whole difference | Single diff_unit int

record time_difference =
  is_past :: bool
  shown :: difference_view
  human_readable :: jsstring

definition diff_of :: "int \<Rightarrow> difference" where
  "diff_of absDiffMs =
     \<lparr> milliseconds = absDiffMs,
       seconds = absDiffMs div 1000,
       minutes = absDiffMs div (1000 * 60),
       hours = absDiffMs div (1000 * 60 * 60),
       days = absDiffMs div (1000 * 60 * 60 * 24),
       weeks = absDiffMs div (1000 * 60 * 60 * 24 * 7),
       months = absDiffMs div (1000 * 60 * 60 * 24 * 30),
       years = absDiffMs div (1000 * 60 * 60 * 24 * 365) \<rparr>"

definition view :: "diff_unit \<Rightarrow> difference \<Rightarrow> difference_view" where
  "view unit d =
     (case unit of
        UnitAll \<Rightarrow> Whole d
      | UnitSeconds \<Rightarrow> Single UnitSeconds (seconds d)
      | UnitMinutes \<Rightarrow> Single UnitMinutes (minutes d)
      | UnitHours \<Rightarrow> Single UnitHours (hours d)
      | UnitDays \<Rightarrow> Single UnitDays (days d))"

definition get_time_difference :: "int \<Rightarrow> int option \<Rightarrow> diff_unit \<Rightarrow> error + time_difference" where
  "get_time_difference now target unit =
     (case target of
        None \<Rightarrow> Inl InvalidDateFormat
      | Some tgt \<Rightarrow>
          (let diffMs = now - tgt;
               isPast = diffMs > 0;
               absDiffMs = \<bar>diffMs\<bar>
           in Inr \<lparr> is_past = isPast,
                    shown = view unit (diff_of absDiffMs),
                    human_readable = getHumanReadableDiff absDiffMs isPast \<rparr>))"

subsection \<open>The process's zone and the Date object\<close>

text \<open>
  A \<^verbatim>\<open>Date\<close> reads and writes its fields in the zone of the process. The zone enters
  through the specification's \<open>LocalTZA(t, isUTC)\<close>: the offset in milliseconds that
  applies at the UTC time value \<open>t\<close> (\<open>isUTC\<close> true) or at the local time value \<open>t\<close>
  (\<open>isUTC\<close> false). Setter arguments pass through ToIntegerOrInfinity, which drops the
  fraction; a setter whose result leaves the range of time values yields NaN (\<open>None\<close>).
\<close>

type_synonym local_zone = "int \<Rightarrow> bool \<Rightarrow> int"

definition LocalTime :: "local_zone \<Rightarrow> int \<Rightarrow> int" where
  "LocalTime tza t = t + tza t True"

definition UTC :: "local_zone \<Rightarrow> int \<Rightarrow> int" where
  "UTC tza t = t - tza t False"

definition ToIntegerOrInfinity :: "number \<Rightarrow> int" where
  "ToIntegerOrInfinity x = (if x < 0 then \<lceil>x\<rceil> else \<lfloor>x\<rfloor>)"

definition getFullYear :: "local_zone \<Rightarrow> int \<Rightarrow> int" where
  "getFullYear tza tv = YearFromTime (LocalTime tza tv)"

definition getMonth :: "local_zone \<Rightarrow> int \<Rightarrow> int" where
  "getMonth tza tv = MonthFromTime (LocalTime tza tv)"

definition getDate :: "local_zone \<Rightarrow> int \<Rightarrow> int" where
  "getDate tza tv = DateFromTime (LocalTime tza tv)"

definition getDay :: "local_zone \<Rightarrow> int \<Rightarrow> int" where
  "getDay tza tv = WeekDay (LocalTime tza tv)"

definition getHours :: "local_zone \<Rightarrow> int \<Rightarrow> int" where
  "getHours tza tv = HourFromTime (LocalTime tza tv)"

definition getMinutes :: "local_zone \<Rightarrow> int \<Rightarrow> int" where
  "getMinutes tza tv = MinFromTime (LocalTime tza tv)"

definition getSeconds :: "local_zone \<Rightarrow> int \<Rightarrow> int" where
  "getSeconds tza tv = SecFromTime (LocalTime tza tv)"

definition getTimezoneOffset :: "local_zone \<Rightarrow> int \<Rightarrow> int" where
  "getTimezoneOffset tza tv = (tv - LocalTime tza tv) div msPerMinute"

definition setSeconds :: "local_zone \<Rightarrow> int \<Rightarrow> number \<Rightarrow> int option" where
  "setSeconds tza tv sec =
     (let t = LocalTime tza tv;
          date = MakeDate (Day t)
                   (MakeTime (HourFromTime t) (MinFromTime t) (ToIntegerOrInfinity sec) (msFromTime t))
      in TimeClip (UTC tza date))"

definition setMinutes :: "local_zone \<Rightarrow> int \<Rightarrow> number \<Rightarrow> int option" where
  "setMinutes tza tv mi =
     (let t = LocalTime tza tv;
          date = MakeDate (Day t)
                   (MakeTime (HourFromTime t) (ToIntegerOrInfinity mi) (SecFromTime t) (msFromTime t))
      in TimeClip (UTC tza date))"

definition setHours :: "local_zone \<Rightarrow> int \<Rightarrow> number \<Rightarrow> int option" where
  "setHours tza tv h =
     (let t = LocalTime tza tv;
          date = MakeDate (Day t)
                   (MakeTime (ToIntegerOrInfinity h) (MinFromTime t) (SecFromTime t) (msFromTime t))
      in TimeClip (UTC tza date))"

definition setDate :: "local_zone \<Rightarrow> int \<Rightarrow> number \<Rightarrow> int option" where
  "setDate tza tv dt =
     (let t = LocalTime tza tv;
          newDate = MakeDate (MakeDay (YearFromTime t) (MonthFromTime t) (ToIntegerOrInfinity dt))
                      (TimeWithinDay t)
      in TimeClip (UTC tza newDate))"

definition setMonth :: "local_zone \<Rightarrow> int \<Rightarrow> number \<Rightarrow> int option" where
  "setMonth tza tv m =
     (let t = LocalTime tza tv;
          newDate = MakeDate (MakeDay (YearFromTime t) (ToIntegerOrInfinity m) (DateFromTime t))
                      (TimeWithinDay t)
      in TimeClip (UTC tza newDate))"

definition setFullYear :: "local_zone \<Rightarrow> int \<Rightarrow> number \<Rightarrow> int option" where
  "setFullYear tza tv y =
     (let t = LocalTime tza tv;
          newDate = MakeDate (MakeDay (ToIntegerOrInfinity y) (MonthFromTime t) (DateFromTime t))
                      (TimeWithinDay t)
      in TimeClip (UTC tza newDate))"

definition newDate :: "local_zone \<Rightarrow> int \<Rightarrow> int \<Rightarrow> int \<Rightarrow> int option" where
  \<comment> \<open>\<^verbatim>\<open>new Date(year, month, date)\<close>: local midnight; a year 0..99 means 1900 + year.\<close>
  "newDate tza year month date =
     (let yr = (if 0 \<le> year \<and> year \<le> 99 then 1900 + year else year)
      in TimeClip (UTC tza (MakeDate (MakeDay yr month date) 0)))"

subsection \<open>utils.ts: getWeekNumber and getDayOfYear\<close>

definition getWeekNumber :: "local_zone \<Rightarrow> int \<Rightarrow> int option" where
  "getWeekNumber tza date =
     (case newDate tza (getFullYear tza date) 0 1 of
        None \<Rightarrow> None
      | Some firstDayOfYear \<Rightarrow>
          (let pastDaysOfYear = (of_int (date - firstDayOfYear) :: number) / 86400000
           in Some \<lceil>(pastDaysOfYear + of_int (getDay tza firstDayOfYear) + 1) / 7\<rceil>))"

definition getDayOfYear :: "local_zone \<Rightarrow> int \<Rightarrow> int option" where
  "getDayOfYear tza date =
     (case newDate tza (getFullYear tza date) 0 0 of
        None \<Rightarrow> None
      | Some start \<Rightarrow> (let diff = date - start in Some (diff div (1000 * 60 * 60 * 24))))"

subsection \<open>server.ts: the components and context blocks\<close>

text \<open>
  \<^verbatim>\<open>get_current_time\<close> and \<^verbatim>\<open>calculate_date\<close> build the same two blocks from a
  \<^verbatim>\<open>Date\<close>, with the local getters. A field that would be NaN is \<open>None\<close>.
\<close>

record components =
  year :: int
  month :: int
  day :: int
  hour :: int
  minute :: int
  second :: int
  dayOfWeek :: int
  weekOfYear :: "int option"

record "context" =
  isWeekend :: bool
  quarter :: int
  dayOfYear :: "int option"
  daysInMonth :: "int option"

definition components_of :: "local_zone \<Rightarrow> int \<Rightarrow> components" where
  "components_of tza d =
     \<lparr> year = getFullYear tza d,
       month = getMonth tza d + 1,
       day = getDate tza d,
       hour = getHours tza d,
       minute = getMinutes tza d,
       second = getSeconds tza d,
       dayOfWeek = getDay tza d,
       weekOfYear = getWeekNumber tza d \<rparr>"

definition context_of :: "local_zone \<Rightarrow> int \<Rightarrow> context" where
  "context_of tza d =
     \<lparr> isWeekend = (getDay tza d = 0 \<or> getDay tza d = 6),
       quarter = (getMonth tza d + 3) div 3,
       dayOfYear = getDayOfYear tza d,
       daysInMonth = map_option (getDate tza) (newDate tza (getFullYear tza d) (getMonth tza d + 1) 0) \<rparr>"

subsection \<open>server.ts: calculate\_date\<close>

text \<open>
  \<open>amount\<close> is any number the schema \<^verbatim>\<open>z.number()\<close> lets through; \<open>unit\<close> is one of the
  seven names of the schema's enumeration. \<open>base_date\<close> is \<open>None\<close> when the argument
  is absent or empty, and otherwise the time value of \<^verbatim>\<open>new Date(base_date)\<close> (\<open>Some None\<close>
  when that is NaN). The handler throws on an unparsable base date;
  \<^verbatim>\<open>toISOString\<close> throws on a result outside the range of time values; then
  \<^verbatim>\<open>toLocaleDateString\<close> throws on a locale that \<^verbatim>\<open>Intl\<close> refuses. All three are caught
  and answered with an error text. Which locale names \<^verbatim>\<open>Intl\<close> accepts is the parameter
  \<open>accepts\<close>; the argument \<open>locale\<close> defaults to \<^verbatim>\<open>ja-JP\<close>. The texts rendered for people
  (\<^verbatim>\<open>human\<close>, \<^verbatim>\<open>description\<close>) are left out of the result, and the clock is read once.
\<close>

datatype time_unit = Seconds | Minutes | Hours | Days | Weeks | Months | Years

record calc_result =
  base_ms :: int
  result_ms :: int
  result_unix :: int
  result_components :: components
  result_context :: "context"
  fromNow :: jsstring

definition add_switch :: "local_zone \<Rightarrow> int \<Rightarrow> number \<Rightarrow> time_unit \<Rightarrow> int option" where
  \<comment> \<open>The \<^verbatim>\<open>switch (unit)\<close> of the handler, applied to a copy of the base date.\<close>
  "add_switch tza resultDate amount unit =
     (case unit of
        Seconds \<Rightarrow> setSeconds tza resultDate (of_int (getSeconds tza resultDate) + amount)
      | Minutes \<Rightarrow> setMinutes tza resultDate (of_int (getMinutes tza resultDate) + amount)
      | Hours \<Rightarrow> setHours tza resultDate (of_int (getHours tza resultDate) + amount)
      | Days \<Rightarrow> setDate tza resultDate (of_int (getDate tza resultDate) + amount)
      | Weeks \<Rightarrow> setDate tza resultDate (of_int (getDate tza resultDate) + amount * 7)
      | Months \<Rightarrow> setMonth tza resultDate (of_int (getMonth tza resultDate) + amount)
      | Years \<Rightarrow> setFullYear tza resultDate (of_int (getFullYear tza resultDate) + amount))"

definition locale_or_default :: "string option \<Rightarrow> string" where
  \<comment> \<open>\<^verbatim>\<open>const { locale = 'ja-JP' } = args\<close>\<close>
  "locale_or_default locale = (case locale of None \<Rightarrow> ''ja-JP'' | Some l \<Rightarrow> l)"

definition calculate_date ::
  "local_zone \<Rightarrow> (string \<Rightarrow> bool) \<Rightarrow> int \<Rightarrow> number \<Rightarrow> time_unit \<Rightarrow> int option option
     \<Rightarrow> string option \<Rightarrow> error + calc_result" where
  "calculate_date tza accepts now amount unit base_date locale =
     (case base_date of
        Some None \<Rightarrow> Inl InvalidDateFormat
      | _ \<Rightarrow>
          (let baseDate = (case base_date of Some (Some b) \<Rightarrow> b | _ \<Rightarrow> now)
           in case add_switch tza baseDate amount unit of
                None \<Rightarrow> Inl InvalidTimeValue
              | Some resultDate \<Rightarrow>
                  if \<not> accepts (locale_or_default locale) then Inl InvalidLocale
                  else
                  Inr \<lparr> base_ms = baseDate,
                        result_ms = resultDate,
                        result_unix = resultDate div 1000,
                        result_components = components_of tza resultDate,
                        result_context = context_of tza resultDate,
                        fromNow = getHumanReadableDiff \<bar>now - resultDate\<bar> (now > resultDate) \<rparr>))"

subsection \<open>server.ts: get\_current\_time\<close>

text \<open>
  \<open>timezone\<close> is the zone name the server was created with (in the older single-file
  server: the zone name of the process), \<open>requestTimezone\<close> the optional argument. The
  first thing the handler renders is the clock in the caller's locale: when \<^verbatim>\<open>Intl\<close>
  refuses the locale this throws, the outer \<^verbatim>\<open>catch\<close> answers an error text, and there
  are no components. The zone database of the host is the parameter \<open>tzdb\<close>: the offset
  in minutes of a named zone at a time value, or \<open>None\<close> for a name it does not know (for
  which \<^verbatim>\<open>toLocaleString\<close> throws inside the inner \<^verbatim>\<open>try\<close>). The \<^verbatim>\<open>converted\<close> block
  holds the wall-clock reading of that zone, to the second, read back as a time of the
  process's zone. The rendered texts themselves are left out of the result.
\<close>

record timezone_block =
  system :: string
  requested :: string
  tz_offset :: int
  converted :: "int option"
  tz_error :: "jsstring option"

record time_info =
  current_ms :: int
  current_unix :: int
  timezone_part :: timezone_block
  components_part :: components
  context_part :: "context"

definition effective_zone :: "string option \<Rightarrow> string \<Rightarrow> string" where
  \<comment> \<open>\<^verbatim>\<open>requestTimezone || timezone\<close>: an absent or empty argument falls back.\<close>
  "effective_zone requestTimezone timezone =
     (case requestTimezone of None \<Rightarrow> timezone | Some r \<Rightarrow> if r = [] then timezone else r)"

definition get_current_time ::
  "string \<Rightarrow> local_zone \<Rightarrow> (string \<Rightarrow> (int \<Rightarrow> int) option) \<Rightarrow> (string \<Rightarrow> bool) \<Rightarrow> int
     \<Rightarrow> string option \<Rightarrow> string option \<Rightarrow> error + time_info" where
  "get_current_time timezone tza tzdb accepts now requestTimezone locale =
     (if \<not> accepts (locale_or_default locale) then Inl InvalidLocale
      else
      let effectiveTimezone = effective_zone requestTimezone timezone;
          block = \<lparr> system = timezone, requested = effectiveTimezone,
                    tz_offset = getTimezoneOffset tza now,
                    converted = None, tz_error = None \<rparr>;
          block' =
            (if effectiveTimezone \<noteq> [] \<and> effectiveTimezone \<noteq> timezone then
               (case tzdb effectiveTimezone of
                  Some off \<Rightarrow>
                    block \<lparr> converted :=
                      Some (UTC tza (((now + off now * msPerMinute) div 1000) * 1000)) \<rparr>
                | None \<Rightarrow>
                    block \<lparr> tz_error :=
                      Some ([0x7121, 0x52B9, 0x306A, 0x30BF, 0x30A4, 0x30E0, 0x30BE, 0x30FC,
                             0x30F3, 0x3A, 0x20] @ asc effectiveTimezone) \<rparr>)
             else block)
      in Inr \<lparr> current_ms = now,
               current_unix = now div 1000,
               timezone_part = block',
               components_part = components_of tza now,
               context_part = context_of tza now \<rparr>)"

section \<open>The Luxon library\<close>

text \<open>
  The second implementation calls Luxon for everything it computes, so the operations
  it calls are modelled here from the library: zones, the \<^verbatim>\<open>DateTime\<close> constructor,
  \<^verbatim>\<open>plus\<close>, \<^verbatim>\<open>setZone\<close>, \<^verbatim>\<open>diff\<close>, \<^verbatim>\<open>Duration.as\<close>, \<^verbatim>\<open>toRelative\<close>, \<^verbatim>\<open>fromISO\<close>
  and \<^verbatim>\<open>toISO\<close>. An invalid \<^verbatim>\<open>DateTime\<close> (\<^verbatim>\<open>isValid\<close> false) is \<open>None\<close>.
\<close>

subsection \<open>Zones\<close>

text \<open>
  A zone answers the offset from UTC, in minutes, that applies at a time value. It is the
  zone of the process, a named (IANA) zone or a fixed offset; only the last is
  "universal". Zones of different kinds are never equal, named zones are equal when their
  names are, fixed ones when their offsets are. The environment of a call is the clock
  reading, the zone of the process, the zone names the host knows (\<open>resolve\<close>) and the
  locale names its \<^verbatim>\<open>Intl\<close> accepts.
\<close>

datatype zone_type = SystemType | IANAType | FixedType

record Zone =
  zoneType :: zone_type
  zoneName :: string
  offset :: "int \<Rightarrow> int"

definition isUniversal :: "Zone \<Rightarrow> bool" where
  "isUniversal z = (zoneType z = FixedType)"

definition zone_equals :: "Zone \<Rightarrow> Zone \<Rightarrow> bool" where
  "zone_equals a b =
     (zoneType a = zoneType b \<and>
      (case zoneType a of
         SystemType \<Rightarrow> True
       | IANAType \<Rightarrow> zoneName a = zoneName b
       | FixedType \<Rightarrow> offset a 0 = offset b 0))"

definition pad2 :: "nat \<Rightarrow> string" where
  "pad2 n = (if n < 10 then CHR ''0'' # digits n else digits n)"

definition fixedName :: "int \<Rightarrow> string" where
  \<comment> \<open>The name of a fixed-offset zone: \<^verbatim>\<open>UTC\<close>, \<^verbatim>\<open>UTC+9\<close>, \<^verbatim>\<open>UTC-3:30\<close>.\<close>
  "fixedName off =
     (if off = 0 then ''UTC''
      else ''UTC'' @ (if off \<ge> 0 then ''+'' else ''-'') @ digits (nat (\<bar>off\<bar> div 60))
           @ (if \<bar>off\<bar> mod 60 > 0 then '':'' @ pad2 (nat (\<bar>off\<bar> mod 60)) else []))"

definition FixedOffsetZone :: "int \<Rightarrow> Zone" where
  "FixedOffsetZone off = \<lparr> zoneType = FixedType, zoneName = fixedName off, offset = (\<lambda>_. off) \<rparr>"

record environment =
  env_now :: int
  systemZone :: Zone
  resolve :: "string \<Rightarrow> Zone option"
  acceptsLocale :: "string \<Rightarrow> bool"

subsection \<open>Calendar fields and time values\<close>

record calendar =
  c_year :: int
  c_month :: int
  c_day :: int
  c_hour :: int
  c_minute :: int
  c_second :: int
  c_millisecond :: int

definition fields_of :: "int \<Rightarrow> calendar" where
  \<comment> \<open>The \<^verbatim>\<open>getUTC*\<close> readings of a time value.\<close>
  "fields_of t =
     \<lparr> c_year = YearFromTime t, c_month = MonthFromTime t + 1, c_day = DateFromTime t,
       c_hour = HourFromTime t, c_minute = MinFromTime t, c_second = SecFromTime t,
       c_millisecond = msFromTime t \<rparr>"

definition newDateOfNumber :: "number \<Rightarrow> int option" where
  \<comment> \<open>\<^verbatim>\<open>new Date(value)\<close>: out of range is NaN, a fraction is dropped.\<close>
  "newDateOfNumber v = (if \<bar>v\<bar> > of_int maxTime then None else Some (ToIntegerOrInfinity v))"

definition tsToObj :: "number \<Rightarrow> int \<Rightarrow> calendar option" where
  "tsToObj ts off = map_option fields_of (newDateOfNumber (ts + of_int (off * 60 * 1000)))"

definition objToLocalTS :: "calendar \<Rightarrow> int option" where
  \<comment> \<open>\<^verbatim>\<open>Date.UTC\<close> of the fields; Luxon undoes the two-digit-year rule of \<^verbatim>\<open>Date.UTC\<close>,
      so the year is taken as it stands.\<close>
  "objToLocalTS obj =
     TimeClip (MakeDate (MakeDay (c_year obj) (c_month obj - 1) (c_day obj))
                 (MakeTime (c_hour obj) (c_minute obj) (c_second obj) (c_millisecond obj)))"

definition fixOffset :: "int \<Rightarrow> int \<Rightarrow> Zone \<Rightarrow> int \<times> int" where
  \<comment> \<open>The time value of a local reading, from a guess of the offset.\<close>
  "fixOffset localTS off tz =
     (let utcGuess = localTS - off * 60 * 1000;
          o2 = offset tz utcGuess
      in if off = o2 then (utcGuess, off)
         else (let utcGuess' = utcGuess - (o2 - off) * 60 * 1000;
                   o3 = offset tz utcGuess'
               in if o2 = o3 then (utcGuess', o2)
                  else (localTS - min o2 o3 * 60 * 1000, max o2 o3)))"

definition objToTS :: "calendar \<Rightarrow> int \<Rightarrow> Zone \<Rightarrow> (int \<times> int) option" where
  "objToTS obj off tz = map_option (\<lambda>localTS. fixOffset localTS off tz) (objToLocalTS obj)"

definition isLeapYear :: "int \<Rightarrow> bool" where
  \<comment> \<open>\<^verbatim>\<open>year % 4 === 0 && (year % 100 !== 0 || year % 400 === 0)\<close>\<close>
  "isLeapYear y = (y mod 4 = 0 \<and> (y mod 400 = 0 \<or> y mod 100 \<noteq> 0))"

definition lx_daysInYear :: "int \<Rightarrow> int" where
  "lx_daysInYear y = (if isLeapYear y then 366 else 365)"

definition lx_daysInMonth :: "int \<Rightarrow> int \<Rightarrow> int" where
  \<comment> \<open>The month may lie outside 1..12; it is reduced and the year moved along.\<close>
  "lx_daysInMonth y m =
     (let modMonth = (m - 1) mod 12 + 1;
          modYear = y + (m - modMonth) div 12
      in if modMonth = 2 then (if isLeapYear modYear then 29 else 28)
         else [31, 0, 31, 30, 31, 30, 31, 31, 30, 31, 30, 31] ! nat (modMonth - 1))"

subsection \<open>DateTime\<close>

text \<open>
  A valid \<^verbatim>\<open>DateTime\<close> holds its time value \<open>ts\<close> (a number: \<^verbatim>\<open>plus\<close> can leave a fraction
  of a millisecond in it), its zone and the offset \<open>offs\<close> in force (Luxon's field \<^verbatim>\<open>o\<close>). Its calendar fields
  \<open>cal\<close> (Luxon's \<^verbatim>\<open>c\<close>) are read from \<open>ts\<close> and \<open>offs\<close>. The constructor refuses a time value whose
  calendar reading is outside the range of \<^verbatim>\<open>Date\<close>.
\<close>

record DateTime =
  ts :: number
  zone :: Zone
  offs :: int

definition cal :: "DateTime \<Rightarrow> calendar" where
  "cal dt = fields_of (ToIntegerOrInfinity (ts dt + of_int (offs dt * 60 * 1000)))"

definition DateTime_trusted :: "number \<Rightarrow> Zone \<Rightarrow> int \<Rightarrow> DateTime option" where
  \<comment> \<open>The constructor given an offset it trusts (from \<open>objToTS\<close>).\<close>
  "DateTime_trusted t z off =
     (case tsToObj t off of None \<Rightarrow> None
      | Some _ \<Rightarrow> Some \<lparr> ts = t, zone = z, offs = off \<rparr>)"

definition DateTime_of :: "number \<Rightarrow> Zone \<Rightarrow> DateTime option" where
  \<comment> \<open>The constructor as \<^verbatim>\<open>fromMillis\<close> and \<^verbatim>\<open>clone\<close> use it: the offset is asked of the zone.\<close>
  "DateTime_of t z =
     (case newDateOfNumber t of None \<Rightarrow> None
      | Some tv \<Rightarrow> DateTime_trusted t z (offset z tv))"

definition isValid :: "DateTime \<Rightarrow> bool" where
  \<comment> \<open>The calendar reading of the date exists.\<close>
  "isValid dt = (tsToObj (ts dt) (offs dt) \<noteq> None)"

definition toMillis :: "DateTime \<Rightarrow> number" where
  "toMillis dt = ts dt"

definition toSeconds :: "DateTime \<Rightarrow> number" where
  "toSeconds dt = ts dt / 1000"

definition weekday :: "DateTime \<Rightarrow> int" where
  \<comment> \<open>1 = Monday .. 7 = Sunday, from \<^verbatim>\<open>getUTCDay\<close> of the local date.\<close>
  "weekday dt =
     (case objToLocalTS ((cal dt) \<lparr> c_hour := 0, c_minute := 0, c_second := 0, c_millisecond := 0 \<rparr>) of
        None \<Rightarrow> 0
      | Some d \<Rightarrow> (let js = WeekDay d in if js = 0 then 7 else js))"

definition lx_quarter :: "DateTime \<Rightarrow> int" where
  "lx_quarter dt = \<lceil>(of_int (c_month (cal dt)) :: number) / 3\<rceil>"

definition ordinal :: "DateTime \<Rightarrow> int" where
  \<comment> \<open>Day of the year, from the cumulative month table.\<close>
  "ordinal dt =
     c_day (cal dt) +
     (if isLeapYear (c_year (cal dt))
      then [0, 31, 60, 91, 121, 152, 182, 213, 244, 274, 305, 335]
      else [0, 31, 59, 90, 120, 151, 181, 212, 243, 273, 304, 334]) ! nat (c_month (cal dt) - 1)"

definition isoWeekday_of :: "int \<Rightarrow> int \<Rightarrow> int \<Rightarrow> int" where
  "isoWeekday_of y m d =
     (let js = WeekDay (MakeDate (MakeDay y (m - 1) d) 0) in if js = 0 then 7 else js)"

definition firstWeekOffset :: "int \<Rightarrow> int" where
  "firstWeekOffset y = - isoWeekday_of y 1 4 + 4 - 1"

definition weeksInWeekYear :: "int \<Rightarrow> int" where
  "weeksInWeekYear weekYear =
     (lx_daysInYear weekYear - firstWeekOffset weekYear + firstWeekOffset (weekYear + 1)) div 7"

definition weekNumber :: "DateTime \<Rightarrow> int" where
  \<comment> \<open>The ISO week number.\<close>
  "weekNumber dt =
     (let n = (ordinal dt - weekday dt + 14 - 4) div 7
      in if n < 1 then weeksInWeekYear (c_year (cal dt) - 1)
         else if n > weeksInWeekYear (c_year (cal dt)) then 1 else n)"

subsection \<open>Duration\<close>

text \<open>
  A duration holds a number per unit. Conversions between units use Luxon's default
  ("casual") table: a year is 365 days or 12 months or 52 weeks, a month is 30 days or
  4 weeks.
\<close>

datatype dur_unit =
  DYears | DQuarters | DMonths | DWeeks | DDays | DHours | DMinutes | DSeconds | DMilliseconds

type_synonym Duration = "dur_unit \<Rightarrow> number"

definition orderedUnits :: "dur_unit list" where
  "orderedUnits =
     [DYears, DQuarters, DMonths, DWeeks, DDays, DHours, DMinutes, DSeconds, DMilliseconds]"

definition zeroDuration :: Duration where
  "zeroDuration = (\<lambda>_. 0)"

definition lowOrder :: "dur_unit \<Rightarrow> dur_unit \<Rightarrow> number" where
  "lowOrder a b =
     (case (a, b) of
        (DWeeks, DDays) \<Rightarrow> 7 | (DWeeks, DHours) \<Rightarrow> 7 * 24 | (DWeeks, DMinutes) \<Rightarrow> 7 * 24 * 60
      | (DWeeks, DSeconds) \<Rightarrow> 7 * 24 * 60 * 60 | (DWeeks, DMilliseconds) \<Rightarrow> 7 * 24 * 60 * 60 * 1000
      | (DDays, DHours) \<Rightarrow> 24 | (DDays, DMinutes) \<Rightarrow> 24 * 60 | (DDays, DSeconds) \<Rightarrow> 24 * 60 * 60
      | (DDays, DMilliseconds) \<Rightarrow> 24 * 60 * 60 * 1000
      | (DHours, DMinutes) \<Rightarrow> 60 | (DHours, DSeconds) \<Rightarrow> 60 * 60
      | (DHours, DMilliseconds) \<Rightarrow> 60 * 60 * 1000
      | (DMinutes, DSeconds) \<Rightarrow> 60 | (DMinutes, DMilliseconds) \<Rightarrow> 60 * 1000
      | (DSeconds, DMilliseconds) \<Rightarrow> 1000
      | _ \<Rightarrow> 0)"

definition matrix :: "dur_unit \<Rightarrow> dur_unit \<Rightarrow> number" where
  \<comment> \<open>\<open>matrix a b\<close>: how many \<open>b\<close> make one \<open>a\<close>, for \<open>a\<close> the larger unit.\<close>
  "matrix a b =
     (case (a, b) of
        (DYears, DQuarters) \<Rightarrow> 4 | (DYears, DMonths) \<Rightarrow> 12 | (DYears, DWeeks) \<Rightarrow> 52
      | (DYears, DDays) \<Rightarrow> 365 | (DYears, DHours) \<Rightarrow> 365 * 24
      | (DYears, DMinutes) \<Rightarrow> 365 * 24 * 60 | (DYears, DSeconds) \<Rightarrow> 365 * 24 * 60 * 60
      | (DYears, DMilliseconds) \<Rightarrow> 365 * 24 * 60 * 60 * 1000
      | (DQuarters, DMonths) \<Rightarrow> 3 | (DQuarters, DWeeks) \<Rightarrow> 13 | (DQuarters, DDays) \<Rightarrow> 91
      | (DQuarters, DHours) \<Rightarrow> 91 * 24 | (DQuarters, DMinutes) \<Rightarrow> 91 * 24 * 60
      | (DQuarters, DSeconds) \<Rightarrow> 91 * 24 * 60 * 60
      | (DQuarters, DMilliseconds) \<Rightarrow> 91 * 24 * 60 * 60 * 1000
      | (DMonths, DWeeks) \<Rightarrow> 4 | (DMonths, DDays) \<Rightarrow> 30 | (DMonths, DHours) \<Rightarrow> 30 * 24
      | (DMonths, DMinutes) \<Rightarrow> 30 * 24 * 60 | (DMonths, DSeconds) \<Rightarrow> 30 * 24 * 60 * 60
      | (DMonths, DMilliseconds) \<Rightarrow> 30 * 24 * 60 * 60 * 1000
      | _ \<Rightarrow> lowOrder a b)"

definition before :: "dur_unit \<Rightarrow> dur_unit list" where
  "before u = takeWhile (\<lambda>k. k \<noteq> u) orderedUnits"

definition after :: "dur_unit \<Rightarrow> dur_unit list" where
  "after u = tl (dropWhile (\<lambda>k. k \<noteq> u) orderedUnits)"

definition as :: "Duration \<Rightarrow> dur_unit \<Rightarrow> number" where
  \<comment> \<open>\<^verbatim>\<open>shiftTo(unit).get(unit)\<close>: larger units are boiled down into \<open>u\<close>, smaller ones
      are added as its fraction.\<close>
  "as d u =
     (\<Sum>k \<leftarrow> before u. matrix k u * d k) + d u + (\<Sum>k \<leftarrow> after u. d k / matrix u k)"

definition negate :: "Duration \<Rightarrow> Duration" where
  "negate d = (\<lambda>k. - d k)"

definition dur_plus :: "Duration \<Rightarrow> Duration \<Rightarrow> Duration" where
  "dur_plus a b = (\<lambda>k. a k + b k)"

definition fromObject1 :: "dur_unit \<Rightarrow> number \<Rightarrow> Duration" where
  \<comment> \<open>\<^verbatim>\<open>Duration.fromObject({ [unit]: amount })\<close>\<close>
  "fromObject1 u amount = zeroDuration (u := amount)"

definition frac :: "number \<Rightarrow> number" where
  \<comment> \<open>\<^verbatim>\<open>x - Math.trunc(x)\<close>\<close>
  "frac x = x - of_int (ToIntegerOrInfinity x)"

subsection \<open>plus and setZone\<close>

definition adjustTime :: "DateTime \<Rightarrow> Duration \<Rightarrow> number option" where
  \<comment> \<open>Whole years, months, weeks and days move the calendar fields, the day of the month
      first cut down to the length of the month reached; everything else is added as
      milliseconds.\<close>
  "adjustTime inst dur =
     (let oPre = offs inst;
          year' = c_year (cal inst) + ToIntegerOrInfinity (dur DYears);
          month' = c_month (cal inst) + ToIntegerOrInfinity (dur DMonths)
                     + ToIntegerOrInfinity (dur DQuarters) * 3;
          c' = (cal inst) \<lparr> c_year := year', c_month := month',
                  c_day := min (c_day (cal inst)) (lx_daysInMonth year' month')
                             + ToIntegerOrInfinity (dur DDays)
                             + ToIntegerOrInfinity (dur DWeeks) * 7 \<rparr>;
          millisToAdd =
            as (zeroDuration
                  (DYears := frac (dur DYears), DQuarters := frac (dur DQuarters),
                   DMonths := frac (dur DMonths), DWeeks := frac (dur DWeeks),
                   DDays := frac (dur DDays), DHours := dur DHours, DMinutes := dur DMinutes,
                   DSeconds := dur DSeconds, DMilliseconds := dur DMilliseconds))
               DMilliseconds
      in case objToLocalTS c' of
           None \<Rightarrow> None
         | Some localTS \<Rightarrow> Some (of_int (fst (fixOffset localTS oPre (zone inst))) + millisToAdd))"

definition plus :: "DateTime \<Rightarrow> Duration \<Rightarrow> DateTime option" where
  "plus dt dur =
     (case adjustTime dt dur of None \<Rightarrow> None | Some t \<Rightarrow> DateTime_of t (zone dt))"

definition setZone :: "DateTime \<Rightarrow> Zone option \<Rightarrow> bool \<Rightarrow> DateTime option" where
  \<comment> \<open>The zone argument is already resolved (\<open>None\<close>: a name the host does not know).\<close>
  "setZone dt z keepLocalTime =
     (case z of
        None \<Rightarrow> None
      | Some zn \<Rightarrow>
          if zone_equals zn (zone dt) then Some dt
          else if keepLocalTime then
            (case newDateOfNumber (ts dt) of
               None \<Rightarrow> None
             | Some tv \<Rightarrow>
                 (case objToTS (cal dt) (offset zn tv) zn of
                    None \<Rightarrow> None
                  | Some (newTS, _) \<Rightarrow> DateTime_of (of_int newTS) zn))
          else DateTime_of (ts dt) zn)"

subsection \<open>diff\<close>

text \<open>
  \<^verbatim>\<open>later.diff(earlier, units)\<close> first counts the calendar units asked for, largest
  first: each count is taken from the calendar fields and lowered by one (at most twice)
  when adding it to the earlier date overshoots the later one. What is left between the
  date so reached (the cursor) and the later date is a number of milliseconds; it is
  spread over the hours, minutes, seconds and milliseconds asked for, or, when none is
  asked for, added to the smallest calendar unit as a fraction of its next step.
  A step that leaves the range of \<^verbatim>\<open>Date\<close> makes the model's result \<open>None\<close>.
\<close>

definition localTV :: "DateTime \<Rightarrow> int" where
  \<comment> \<open>The local reading of a date as a time value.\<close>
  "localTV dt = ToIntegerOrInfinity (ts dt + of_int (offs dt * 60 * 1000))"

definition dayDiff :: "DateTime \<Rightarrow> DateTime \<Rightarrow> int" where
  \<comment> \<open>Whole days between the local midnights of the two dates.\<close>
  "dayDiff earlier later = (Day (localTV later) * msPerDay - Day (localTV earlier) * msPerDay) div msPerDay"

definition differ :: "dur_unit \<Rightarrow> DateTime \<Rightarrow> DateTime \<Rightarrow> int" where
  "differ u a b =
     (case u of
        DYears \<Rightarrow> c_year (cal b) - c_year (cal a)
      | DQuarters \<Rightarrow> lx_quarter b - lx_quarter a + (c_year (cal b) - c_year (cal a)) * 4
      | DMonths \<Rightarrow> c_month (cal b) - c_month (cal a) + (c_year (cal b) - c_year (cal a)) * 12
      | DWeeks \<Rightarrow> (let days = dayDiff a b
                   in if days \<ge> 0 then days div 7 else - ((- days) div 7))
      | DDays \<Rightarrow> dayDiff a b
      | _ \<Rightarrow> 0)"

record diff_state =
  cursor :: DateTime
  results :: Duration
  highWater :: "DateTime option"
  lowestOrder :: "dur_unit option"

definition highOrderStep ::
  "dur_unit list \<Rightarrow> DateTime \<Rightarrow> DateTime \<Rightarrow> dur_unit \<Rightarrow> diff_state \<Rightarrow> diff_state option" where
  "highOrderStep units earlier later u st =
     (if u \<in> set units then
        (let results1 = (results st) (u := of_int (differ u (cursor st) later))
         in case plus earlier results1 of
              None \<Rightarrow> None
            | Some hw \<Rightarrow>
                if ts hw > ts later then
                  (let results2 = results1 (u := results1 u - 1)
                   in case plus earlier results2 of
                        None \<Rightarrow> None
                      | Some cursor2 \<Rightarrow>
                          if ts cursor2 > ts later then
                            (let results3 = results2 (u := results2 u - 1)
                             in case plus earlier results3 of
                                  None \<Rightarrow> None
                                | Some cursor3 \<Rightarrow>
                                    Some \<lparr> cursor = cursor3, results = results3,
                                           highWater = Some cursor2, lowestOrder = Some u \<rparr>)
                          else Some \<lparr> cursor = cursor2, results = results2,
                                      highWater = Some hw, lowestOrder = Some u \<rparr>)
                else Some \<lparr> cursor = hw, results = results1,
                            highWater = Some hw, lowestOrder = Some u \<rparr>)
      else Some st)"

fun highOrderLoop ::
  "dur_unit list \<Rightarrow> DateTime \<Rightarrow> DateTime \<Rightarrow> dur_unit list \<Rightarrow> diff_state \<Rightarrow> diff_state option" where
  "highOrderLoop units earlier later [] st = Some st"
| "highOrderLoop units earlier later (u # us) st =
     (case highOrderStep units earlier later u st of
        None \<Rightarrow> None
      | Some st' \<Rightarrow> highOrderLoop units earlier later us st')"

definition highOrderDiffs :: "DateTime \<Rightarrow> DateTime \<Rightarrow> dur_unit list \<Rightarrow> diff_state option" where
  "highOrderDiffs earlier later units =
     highOrderLoop units earlier later [DYears, DQuarters, DMonths, DWeeks, DDays]
       \<lparr> cursor = earlier, results = zeroDuration, highWater = None, lowestOrder = None \<rparr>"

fun rollUp :: "number \<Rightarrow> Duration \<Rightarrow> dur_unit \<Rightarrow> dur_unit list \<Rightarrow> Duration" where
  \<comment> \<open>Whole multiples of a smaller unit are carried into the next larger unit asked for.\<close>
  "rollUp factor vals previous [] = vals"
| "rollUp factor vals previous (current # larger) =
     (let conv = matrix current previous;
          r = of_int \<lfloor>vals previous * factor / conv\<rfloor>
      in rollUp factor
           (vals (current := vals current + r * factor, previous := vals previous - r * conv * factor))
           current larger)"

definition shiftToLow :: "number \<Rightarrow> dur_unit list \<Rightarrow> Duration" where
  \<comment> \<open>\<^verbatim>\<open>Duration.fromMillis(ms).shiftTo(...units)\<close> for units among hours, minutes,
      seconds and milliseconds.\<close>
  "shiftToLow ms units =
     (case rev (filter (\<lambda>u. u \<in> set units) [DHours, DMinutes, DSeconds, DMilliseconds]) of
        [] \<Rightarrow> zeroDuration
      | lastUnit # larger \<Rightarrow>
          rollUp (if ms < 0 then - 1 else 1)
            (zeroDuration (lastUnit := (if lastUnit = DMilliseconds then ms
                                        else ms / matrix lastUnit DMilliseconds)))
            lastUnit larger)"

definition diff_impl :: "DateTime \<Rightarrow> DateTime \<Rightarrow> dur_unit list \<Rightarrow> Duration option" where
  "diff_impl earlier later units =
     (case highOrderDiffs earlier later units of
        None \<Rightarrow> None
      | Some st \<Rightarrow>
          (let remainingMillis = ts later - ts (cursor st);
               lowerOrderUnits =
                 filter (\<lambda>u. u \<in> {DHours, DMinutes, DSeconds, DMilliseconds}) units
           in if lowerOrderUnits = [] then
                (case (highWater st, lowestOrder st) of
                   (Some hw, Some lo) \<Rightarrow>
                     (case (if ts hw < ts later then plus (cursor st) (fromObject1 lo 1)
                            else Some hw) of
                        None \<Rightarrow> None
                      | Some hw' \<Rightarrow>
                          if ts hw' \<noteq> ts (cursor st) then
                            Some ((results st)
                                    (lo := results st lo + remainingMillis / (ts hw' - ts (cursor st))))
                          else Some (results st))
                 | _ \<Rightarrow> Some (results st))
              else Some (dur_plus (shiftToLow remainingMillis lowerOrderUnits) (results st))))"

definition diff :: "DateTime \<Rightarrow> DateTime \<Rightarrow> dur_unit list \<Rightarrow> Duration option" where
  \<comment> \<open>\<^verbatim>\<open>this.diff(other, units)\<close>\<close>
  "diff this other units =
     (let otherIsLater = ts other > ts this;
          earlier = (if otherIsLater then this else other);
          later = (if otherIsLater then other else this)
      in map_option (\<lambda>d. if otherIsLater then negate d else d) (diff_impl earlier later units))"

subsection \<open>toRelative\<close>

text \<open>
  \<^verbatim>\<open>dt.toRelative({ base })\<close> tries years, months, days, hours, minutes and seconds in
  this order (weeks are not among them) and renders the first whose count from the base
  is at least one in magnitude, cut to an integer; failing all, zero seconds. The
  rendering is that of \<^verbatim>\<open>Intl.RelativeTimeFormat\<close> in the locale of the process; the
  English one is modelled.
\<close>

datatype relative = Relative int dur_unit bool

fun relativeLoop :: "DateTime \<Rightarrow> DateTime \<Rightarrow> dur_unit list \<Rightarrow> relative option" where
  "relativeLoop start end [] = Some (Relative 0 DSeconds (ts start > ts end))"
| "relativeLoop start end (u # us) =
     (case diff end start [u] of
        None \<Rightarrow> None
      | Some d \<Rightarrow>
          (let count = d u
           in if \<bar>count\<bar> \<ge> 1 then Some (Relative (ToIntegerOrInfinity count) u (count < 0))
              else relativeLoop start end us))"

definition toRelative :: "DateTime \<Rightarrow> DateTime \<Rightarrow> relative option" where
  "toRelative dt base = relativeLoop base dt [DYears, DMonths, DDays, DHours, DMinutes, DSeconds]"

definition unit_word :: "dur_unit \<Rightarrow> string" where
  "unit_word u =
     (case u of DYears \<Rightarrow> ''year'' | DQuarters \<Rightarrow> ''quarter'' | DMonths \<Rightarrow> ''month''
      | DWeeks \<Rightarrow> ''week'' | DDays \<Rightarrow> ''day'' | DHours \<Rightarrow> ''hour'' | DMinutes \<Rightarrow> ''minute''
      | DSeconds \<Rightarrow> ''second'' | DMilliseconds \<Rightarrow> ''millisecond'')"

fun grouped :: "nat \<Rightarrow> string" where
  \<comment> \<open>Decimal digits in groups of three.\<close>
  "grouped n =
     (if n < 1000 then digits n
      else grouped (n div 1000) @ '','' @
           (let r = n mod 1000 in (if r < 100 then ''0'' else []) @ (if r < 10 then ''0'' else []) @ digits r))"

declare grouped.simps [simp del]

definition format_en :: "relative \<Rightarrow> jsstring" where
  "format_en r =
     (case r of Relative n u neg \<Rightarrow>
        (let word = unit_word u @ (if \<bar>n\<bar> = 1 then [] else ''s'')
         in if neg then asc (grouped (nat \<bar>n\<bar>) @ '' '' @ word @ '' ago'')
            else asc (''in '' @ grouped (nat \<bar>n\<bar>) @ '' '' @ word)))"

subsection \<open>fromISO and toISO\<close>

text \<open>
  \<^verbatim>\<open>DateTime.fromISO\<close> is modelled on calendar dates with four-digit years:
  \<^verbatim>\<open>YYYY[-]MM[-]DD\<close>, optionally followed by \<^verbatim>\<open>T\<close>, a time
  \<^verbatim>\<open>HH[[:]MM[[:]SS[.fraction]]]\<close> and an offset \<^verbatim>\<open>Z\<close> or \<^verbatim>\<open>+HH[[:]MM]\<close>, as Luxon's
  pattern for them reads. Week dates, ordinal dates, times without a date, six-digit
  years and bracketed zone names are outside the model, which reports them unparsable.
\<close>

definition is_digit :: "char \<Rightarrow> bool" where
  "is_digit ch = (48 \<le> (of_char ch :: nat) \<and> (of_char ch :: nat) \<le> 57)"

definition digit_val :: "char \<Rightarrow> int" where
  "digit_val ch = int (of_char ch) - 48"

definition two_digits :: "string \<Rightarrow> (int \<times> string) option" where
  "two_digits s =
     (case s of
        a # b # rest \<Rightarrow>
          if is_digit a \<and> is_digit b then Some (digit_val a * 10 + digit_val b, rest) else None
      | _ \<Rightarrow> None)"

definition four_digits :: "string \<Rightarrow> (int \<times> string) option" where
  "four_digits s =
     (case two_digits s of
        None \<Rightarrow> None
      | Some (hi, rest) \<Rightarrow>
          (case two_digits rest of None \<Rightarrow> None | Some (lo, rest') \<Rightarrow> Some (hi * 100 + lo, rest')))"

definition opt_two :: "char \<Rightarrow> string \<Rightarrow> int option \<times> string" where
  \<comment> \<open>The optional group \<^verbatim>\<open>(?:sep?(\d\d))?\<close>.\<close>
  "opt_two sep s =
     (case two_digits (case s of ch # rest \<Rightarrow> if ch = sep then rest else s | [] \<Rightarrow> s) of
        Some (v, rest) \<Rightarrow> (Some v, rest)
      | None \<Rightarrow> (None, s))"

definition parseMillis :: "string \<Rightarrow> int" where
  \<comment> \<open>\<^verbatim>\<open>Math.floor(parseFloat("0." + fraction) * 1000)\<close>: the first three digits.\<close>
  "parseMillis fraction =
     (let ds = map digit_val (take 3 fraction) @ replicate (3 - length (take 3 fraction)) 0
      in (ds ! 0) * 100 + (ds ! 1) * 10 + (ds ! 2))"

definition opt_fraction :: "string \<Rightarrow> int option \<times> string" where
  \<comment> \<open>The optional group \<^verbatim>\<open>(?:[.,](\d{1,30}))?\<close>.\<close>
  "opt_fraction s =
     (case s of
        ch # rest \<Rightarrow>
          if ch = CHR ''.'' \<or> ch = CHR '','' then
            (let ds = take 30 (takeWhile is_digit rest)
             in if ds = [] then (None, s) else (Some (parseMillis ds), drop (length ds) rest))
          else (None, s)
      | [] \<Rightarrow> (None, s))"

definition signedOffset :: "bool \<Rightarrow> int \<Rightarrow> int option \<Rightarrow> int" where
  \<comment> \<open>The sign of the hours also signs the minutes.\<close>
  "signedOffset negative offHour offMinute =
     (let offMin = (case offMinute of None \<Rightarrow> 0 | Some m \<Rightarrow> m)
      in if negative then - (offHour * 60) - offMin else offHour * 60 + offMin)"

definition opt_offset :: "string \<Rightarrow> int option \<times> string" where
  \<comment> \<open>The optional group \<^verbatim>\<open>(?:(Z)|([+-]\d\d)(?::?(\d\d))?)?\<close>.\<close>
  "opt_offset s =
     (case s of
        ch # rest \<Rightarrow>
          if ch = CHR ''Z'' then (Some 0, rest)
          else if ch = CHR ''+'' \<or> ch = CHR ''-'' then
            (case two_digits rest of
               None \<Rightarrow> (None, s)
             | Some (h, rest') \<Rightarrow>
                 (case opt_two CHR '':'' rest' of
                    (m, rest'') \<Rightarrow> (Some (signedOffset (ch = CHR ''-'') h m), rest'')))
          else (None, s)
      | [] \<Rightarrow> (None, s))"

record iso_parsed =
  iso_fields :: calendar
  iso_offset :: "int option"

definition or_default :: "int \<Rightarrow> int option \<Rightarrow> int" where
  \<comment> \<open>\<^verbatim>\<open>parseInteger(m) || d\<close>: an absent group and a zero both give the default.\<close>
  "or_default d v = (case v of None \<Rightarrow> d | Some n \<Rightarrow> if n = 0 then d else n)"

definition parseISOTime :: "calendar \<Rightarrow> string \<Rightarrow> iso_parsed option" where
  \<comment> \<open>What follows the \<^verbatim>\<open>T\<close>.\<close>
  "parseISOTime date s =
     (case two_digits s of
        None \<Rightarrow> None
      | Some (h, s1) \<Rightarrow>
          (case opt_two CHR '':'' s1 of (mi, s2) \<Rightarrow>
          (case (if mi = None then (None, s2) else opt_two CHR '':'' s2) of (se, s3) \<Rightarrow>
          (case (if se = None then (None, s3) else opt_fraction s3) of (ms, s4) \<Rightarrow>
          (case opt_offset s4 of (off, s5) \<Rightarrow>
             if s5 = [] then
               Some \<lparr> iso_fields = date \<lparr> c_hour := h, c_minute := or_default 0 mi,
                                           c_second := or_default 0 se,
                                           c_millisecond := or_default 0 ms \<rparr>,
                      iso_offset = off \<rparr>
             else None)))))"

definition parseISODate :: "string \<Rightarrow> iso_parsed option" where
  "parseISODate s =
     (case four_digits s of
        None \<Rightarrow> None
      | Some (y, s1) \<Rightarrow>
          (case opt_two CHR ''-'' s1 of (mo, s2) \<Rightarrow>
          (case (if mo = None then (None, s2) else opt_two CHR ''-'' s2) of (d, s3) \<Rightarrow>
             (let date = \<lparr> c_year = y, c_month = or_default 1 mo, c_day = or_default 1 d,
                           c_hour = 0, c_minute = 0, c_second = 0, c_millisecond = 0 \<rparr>
              in case s3 of
                   [] \<Rightarrow> Some \<lparr> iso_fields = date, iso_offset = None \<rparr>
                 | ch # rest \<Rightarrow> if ch = CHR ''T'' then parseISOTime date rest else None))))"

definition validFields :: "calendar \<Rightarrow> bool" where
  \<comment> \<open>The checks of \<^verbatim>\<open>fromObject\<close>; midnight may be written 24:00:00.\<close>
  "validFields obj =
     (1 \<le> c_month obj \<and> c_month obj \<le> 12 \<and>
      1 \<le> c_day obj \<and> c_day obj \<le> lx_daysInMonth (c_year obj) (c_month obj) \<and>
      ((0 \<le> c_hour obj \<and> c_hour obj \<le> 23) \<or>
       (c_hour obj = 24 \<and> c_minute obj = 0 \<and> c_second obj = 0 \<and> c_millisecond obj = 0)) \<and>
      0 \<le> c_minute obj \<and> c_minute obj \<le> 59 \<and>
      0 \<le> c_second obj \<and> c_second obj \<le> 59 \<and>
      0 \<le> c_millisecond obj \<and> c_millisecond obj \<le> 999)"

definition fromObject :: "environment \<Rightarrow> calendar \<Rightarrow> Zone \<Rightarrow> DateTime option" where
  \<comment> \<open>The first guess of the offset is the zone's offset at the present moment.\<close>
  "fromObject env obj z =
     (if validFields obj then
        (case objToTS obj (offset z (env_now env)) z of
           None \<Rightarrow> None
         | Some (tsFinal, offsetFinal) \<Rightarrow> DateTime_trusted (of_int tsFinal) z offsetFinal)
      else None)"

definition fromISO :: "environment \<Rightarrow> string \<Rightarrow> Zone \<Rightarrow> DateTime option" where
  \<comment> \<open>\<open>z\<close> is the \<^verbatim>\<open>zone\<close> option, or the zone of the process when the call gives none.
      An offset in the text decides the instant; the result is then shown in \<open>z\<close>.\<close>
  "fromISO env text z =
     (case parseISODate text of
        None \<Rightarrow> None
      | Some p \<Rightarrow>
          (let interpretationZone =
                 (case iso_offset p of Some off \<Rightarrow> FixedOffsetZone off | None \<Rightarrow> z)
           in case fromObject env (iso_fields p) interpretationZone of
                None \<Rightarrow> None
              | Some inst \<Rightarrow> setZone inst (Some z) False))"

definition padStart :: "nat \<Rightarrow> nat \<Rightarrow> string" where
  "padStart n v = replicate (n - length (digits v)) CHR ''0'' @ digits v"

definition toISODate :: "DateTime \<Rightarrow> string" where
  "toISODate dt =
     (let y = c_year (cal dt)
      in (if y > 9999 \<or> y < 0
          then (if y < 0 then ''-'' else ''+'') @ padStart 6 (nat \<bar>y\<bar>)
          else padStart 4 (nat y))
         @ ''-'' @ padStart 2 (nat (c_month (cal dt))) @ ''-'' @ padStart 2 (nat (c_day (cal dt))))"

definition toISOTime :: "DateTime \<Rightarrow> string" where
  "toISOTime dt =
     padStart 2 (nat (c_hour (cal dt))) @ '':'' @ padStart 2 (nat (c_minute (cal dt))) @ '':''
     @ padStart 2 (nat (c_second (cal dt))) @ ''.'' @ padStart 3 (nat (c_millisecond (cal dt)))
     @ (if isUniversal (zone dt) \<and> offs dt = 0 then ''Z''
        else if offs dt < 0
        then ''-'' @ padStart 2 (nat ((- offs dt) div 60)) @ '':'' @ padStart 2 (nat ((- offs dt) mod 60))
        else ''+'' @ padStart 2 (nat (offs dt div 60)) @ '':'' @ padStart 2 (nat (offs dt mod 60)))"

definition toISO :: "DateTime \<Rightarrow> string" where
  "toISO dt = toISODate dt @ ''T'' @ toISOTime dt"

section \<open>The Luxon-based implementation\<close>

subsection \<open>utils.ts (Luxon version)\<close>

definition timeUnits :: "time_unit \<Rightarrow> string" where
  "timeUnits u =
     (case u of Seconds \<Rightarrow> ''second'' | Minutes \<Rightarrow> ''minute'' | Hours \<Rightarrow> ''hour''
      | Days \<Rightarrow> ''day'' | Weeks \<Rightarrow> ''week'' | Months \<Rightarrow> ''month'' | Years \<Rightarrow> ''year'')"

definition unit_key :: "time_unit \<Rightarrow> dur_unit" where
  \<comment> \<open>The key \<^verbatim>\<open>durationObj[unit]\<close> of the duration object.\<close>
  "unit_key u =
     (case u of Seconds \<Rightarrow> DSeconds | Minutes \<Rightarrow> DMinutes | Hours \<Rightarrow> DHours
      | Days \<Rightarrow> DDays | Weeks \<Rightarrow> DWeeks | Months \<Rightarrow> DMonths | Years \<Rightarrow> DYears)"

definition getHumanReadableDiff_luxon :: "DateTime \<Rightarrow> DateTime \<Rightarrow> jsstring" where
  \<comment> \<open>\<^verbatim>\<open>dt1.toRelative({ base: dt2 }) || 'now'\<close>\<close>
  "getHumanReadableDiff_luxon dt1 dt2 =
     (case toRelative dt1 dt2 of None \<Rightarrow> asc ''now'' | Some r \<Rightarrow> format_en r)"

record components_luxon = components +
  offset_minutes :: int

definition getDateComponents :: "DateTime \<Rightarrow> components_luxon" where
  "getDateComponents dt =
     \<lparr> year = c_year (cal dt),
       month = c_month (cal dt),
       day = c_day (cal dt),
       hour = c_hour (cal dt),
       minute = c_minute (cal dt),
       second = c_second (cal dt),
       dayOfWeek = (if weekday dt = 7 then 0 else weekday dt),
       weekOfYear = Some (weekNumber dt),
       offset_minutes = - offs dt \<rparr>"

definition getDateContext :: "DateTime \<Rightarrow> context" where
  "getDateContext dt =
     \<lparr> isWeekend = (weekday dt \<ge> 6),
       quarter = lx_quarter dt,
       dayOfYear = Some (ordinal dt),
       daysInMonth = Some (lx_daysInMonth (c_year (cal dt)) (c_month (cal dt))) \<rparr>"

record date_info =
  iso :: string
  unix :: int
  info_milliseconds :: number

definition formatDateInfo :: "environment \<Rightarrow> DateTime \<Rightarrow> string \<Rightarrow> error + date_info" where
  \<comment> \<open>Rendering the date in the locale throws when \<^verbatim>\<open>Intl\<close> refuses the locale; the
      rendered text (\<^verbatim>\<open>human\<close>) itself is left out.\<close>
  "formatDateInfo env dt locale =
     (if \<not> acceptsLocale env locale then Inl InvalidLocale
      else Inr \<lparr> iso = toISO dt, unix = \<lfloor>toSeconds dt\<rfloor>, info_milliseconds = toMillis dt \<rparr>)"

definition formatDateInfo_opt ::
  "environment \<Rightarrow> DateTime option \<Rightarrow> string \<Rightarrow> error + date_info option" where
  \<comment> \<open>The same on a date that may be invalid: an invalid one renders as empty fields
      and nothing is thrown.\<close>
  "formatDateInfo_opt env dt locale =
     (case dt of None \<Rightarrow> Inr None
      | Some d \<Rightarrow> (case formatDateInfo env d locale of Inl e \<Rightarrow> Inl e | Inr i \<Rightarrow> Inr (Some i)))"

fun has_offset_pattern :: "string \<Rightarrow> bool" where
  \<comment> \<open>\<^verbatim>\<open>[+-]\d{2}:\d{2}\<close> somewhere in the text.\<close>
  "has_offset_pattern [] = False"
| "has_offset_pattern (ch # s) =
     (((ch = CHR ''+'' \<or> ch = CHR ''-'') \<and>
       (case s of
          a # b # k # d # e # _ \<Rightarrow>
            is_digit a \<and> is_digit b \<and> k = CHR '':'' \<and> is_digit d \<and> is_digit e
        | _ \<Rightarrow> False))
      \<or> has_offset_pattern s)"

definition hasTimezone :: "string \<Rightarrow> bool" where
  \<comment> \<open>\<^verbatim>\<open>/[+-]\d{2}:\d{2}|Z$/.test(dateStr)\<close>\<close>
  "hasTimezone dateStr =
     (has_offset_pattern dateStr \<or> (dateStr \<noteq> [] \<and> last dateStr = CHR ''Z''))"

definition utcZone :: Zone where
  "utcZone = FixedOffsetZone 0"

definition parseDateWithTimezone :: "environment \<Rightarrow> string \<Rightarrow> string option \<Rightarrow> DateTime option" where
  "parseDateWithTimezone env dateStr fallbackTimezone =
     (if hasTimezone dateStr then fromISO env dateStr (systemZone env)
      else
        (case (case fallbackTimezone of
                 None \<Rightarrow> None
               | Some fb \<Rightarrow>
                   if fb = [] then None
                   else (case fromISO env dateStr utcZone of
                           None \<Rightarrow> None
                         | Some d \<Rightarrow> setZone d (resolve env fb) True)) of
           Some dt \<Rightarrow> Some dt
         | None \<Rightarrow> fromISO env dateStr (systemZone env)))"

definition addDuration :: "DateTime \<Rightarrow> number \<Rightarrow> time_unit \<Rightarrow> DateTime option" where
  "addDuration dt amount unit = plus dt (fromObject1 (unit_key unit) amount)"

record difference_luxon =
  lx_milliseconds :: number
  lx_seconds :: int
  lx_minutes :: int
  lx_hours :: int
  lx_days :: int
  lx_weeks :: int
  lx_months :: int
  lx_years :: int

definition calculateDifference :: "DateTime \<Rightarrow> DateTime \<Rightarrow> difference_luxon option" where
  "calculateDifference dt1 dt2 =
     (case diff dt1 dt2 [DYears, DMonths, DDays, DHours, DMinutes, DSeconds, DMilliseconds] of
        None \<Rightarrow> None
      | Some d \<Rightarrow>
          Some \<lparr> lx_milliseconds = \<bar>d DMilliseconds\<bar>,
                 lx_seconds = \<lfloor>\<bar>as d DSeconds\<bar>\<rfloor>,
                 lx_minutes = \<lfloor>\<bar>as d DMinutes\<bar>\<rfloor>,
                 lx_hours = \<lfloor>\<bar>as d DHours\<bar>\<rfloor>,
                 lx_days = \<lfloor>\<bar>as d DDays\<bar>\<rfloor>,
                 lx_weeks = \<lfloor>\<bar>as d DWeeks\<bar>\<rfloor>,
                 lx_months = \<lfloor>\<bar>as d DMonths\<bar>\<rfloor>,
                 lx_years = \<lfloor>\<bar>as d DYears\<bar>\<rfloor> \<rparr>)"

subsection \<open>server.ts (Luxon version): calculate\_date\<close>

text \<open>
  \<open>timezone\<close> is the zone name the server was created with. The handler throws when
  a base date is given and does not parse, and \<^verbatim>\<open>formatDateInfo\<close> throws when it renders
  a valid result in a locale \<^verbatim>\<open>Intl\<close> refuses; both are caught and answered with an
  error text. A date that became invalid on the way (a result out of range, an unknown
  target zone) is not an error: its blocks are then empty, \<open>None\<close> here. The
  \<open>description\<close> text is left out.
\<close>

definition or_else :: "string option \<Rightarrow> string \<Rightarrow> string" where
  \<comment> \<open>\<^verbatim>\<open>a || b\<close> on an optional string.\<close>
  "or_else a b = (case a of None \<Rightarrow> b | Some s \<Rightarrow> if s = [] then b else s)"

definition nowIn :: "environment \<Rightarrow> string \<Rightarrow> DateTime option" where
  \<comment> \<open>\<^verbatim>\<open>DateTime.now().setZone(name)\<close>\<close>
  "nowIn env name =
     (case DateTime_of (of_int (env_now env)) (systemZone env) of
        None \<Rightarrow> None
      | Some d \<Rightarrow> setZone d (resolve env name) False)"

record calc_result_luxon =
  calc_base :: "string option"
  calc_result :: "date_info option"
  calc_components :: "components_luxon option"
  calc_context :: "context option"
  calc_fromNow :: jsstring

definition calculate_date_luxon ::
  "string \<Rightarrow> environment \<Rightarrow> number \<Rightarrow> time_unit \<Rightarrow> string option \<Rightarrow> string option \<Rightarrow> string option
     \<Rightarrow> string option \<Rightarrow> error + calc_result_luxon" where
  "calculate_date_luxon timezone env amount unit base_date base_timezone requestTimezone locale =
     (let effectiveTimezone = or_else requestTimezone timezone;
          given = (case base_date of None \<Rightarrow> False | Some b \<Rightarrow> b \<noteq> []);
          parsed = (if given then parseDateWithTimezone env (the base_date)
                                    (Some (or_else base_timezone timezone))
                    else None)
      in if given \<and> parsed = None then Inl InvalidDateFormat
         else
           (let baseDateTime = (if given then parsed else nowIn env timezone);
                resultDateTime = Option.bind baseDateTime (\<lambda>b. addDuration b amount unit);
                resultInTargetZone =
                  Option.bind resultDateTime (\<lambda>r. setZone r (resolve env effectiveTimezone) False)
            in case formatDateInfo_opt env resultInTargetZone (locale_or_default locale) of
                 Inl e \<Rightarrow> Inl e
               | Inr info \<Rightarrow>
                 Inr \<lparr> calc_base = map_option toISO baseDateTime,
                     calc_result = info,
                     calc_components = map_option getDateComponents resultInTargetZone,
                     calc_context = map_option getDateContext resultInTargetZone,
                     calc_fromNow =
                       (case (resultInTargetZone, nowIn env effectiveTimezone) of
                          (Some r, Some n) \<Rightarrow> getHumanReadableDiff_luxon r n
                        | _ \<Rightarrow> asc ''now'') \<rparr>))"

subsection \<open>server.ts (Luxon version): get\_time\_difference\<close>

datatype difference_view_luxon = WholeL "difference_luxon option" | SingleL diff_unit "int option"

record time_difference_luxon =
  l_reference_date :: "date_info option"
  l_current_date :: "date_info option"
  l_is_past :: bool
  l_difference :: difference_view_luxon
  l_human_readable :: jsstring

definition view_luxon :: "diff_unit \<Rightarrow> difference_luxon option \<Rightarrow> difference_view_luxon" where
  "view_luxon unit d =
     (case unit of
        UnitAll \<Rightarrow> WholeL d
      | UnitSeconds \<Rightarrow> SingleL UnitSeconds (map_option lx_seconds d)
      | UnitMinutes \<Rightarrow> SingleL UnitMinutes (map_option lx_minutes d)
      | UnitHours \<Rightarrow> SingleL UnitHours (map_option lx_hours d)
      | UnitDays \<Rightarrow> SingleL UnitDays (map_option lx_days d))"

definition get_time_difference_luxon ::
  "string \<Rightarrow> environment \<Rightarrow> string \<Rightarrow> string option \<Rightarrow> diff_unit \<Rightarrow> string option
     \<Rightarrow> string option \<Rightarrow> error + time_difference_luxon" where
  "get_time_difference_luxon timezone env reference_date reference_timezone unit requestTimezone locale =
     (let effectiveTimezone = or_else requestTimezone timezone;
          now = nowIn env effectiveTimezone
      in case parseDateWithTimezone env reference_date (Some (or_else reference_timezone timezone)) of
           None \<Rightarrow> Inl InvalidDateFormat
         | Some parsed \<Rightarrow>
             (let target = setZone parsed (resolve env effectiveTimezone) False;
                  d = (case (now, target) of
                         (Some n, Some t) \<Rightarrow> calculateDifference n t | _ \<Rightarrow> None);
                  isPast = (case (now, target) of (Some n, Some t) \<Rightarrow> ts n > ts t | _ \<Rightarrow> False)
              in case formatDateInfo_opt env target (locale_or_default locale) of
                   Inl e \<Rightarrow> Inl e
                 | Inr reference_info \<Rightarrow>
                 (case formatDateInfo_opt env now (locale_or_default locale) of
                   Inl e \<Rightarrow> Inl e
                 | Inr current_info \<Rightarrow>
                 Inr \<lparr> l_reference_date = reference_info,
                       l_current_date = current_info,
                       l_is_past = isPast,
                       l_difference = view_luxon unit d,
                       l_human_readable =
                         (case (target, now) of
                            (Some t, Some n) \<Rightarrow> getHumanReadableDiff_luxon t n
                          | _ \<Rightarrow> asc ''now'') \<rparr>)))"

section \<open>Zones and hosts of the examples\<close>

text \<open>
  The zones named in the tools' own parameter descriptions, with the offsets they have in
  the years of the examples: Asia/Tokyo is nine hours ahead of UTC throughout;
  America/New\_York is five hours behind, and four between 2024-03-10T07:00Z and
  2024-11-03T06:00Z and between 2025-03-09T07:00Z and 2025-11-02T06:00Z (outside these
  two years the model stays on standard time). The host of the examples runs on UTC,
  resolves these names and accepts the locales \<^verbatim>\<open>ja-JP\<close> and \<^verbatim>\<open>en-US\<close>.
\<close>

definition tokyo :: Zone where
  "tokyo = \<lparr> zoneType = IANAType, zoneName = ''Asia/Tokyo'', offset = (\<lambda>_. 540) \<rparr>"

definition new_york :: Zone where
  "new_york =
     \<lparr> zoneType = IANAType, zoneName = ''America/New_York'',
       offset = (\<lambda>t. if (1710054000000 \<le> t \<and> t < 1730613600000) \<or>
                        (1741503600000 \<le> t \<and> t < 1762063200000) then - 240 else - 300) \<rparr>"

definition system_utc :: Zone where
  \<comment> \<open>The zone of a process that runs on UTC.\<close>
  "system_utc = \<lparr> zoneType = SystemType, zoneName = ''UTC'', offset = (\<lambda>_. 0) \<rparr>"

definition known_zones :: "string \<Rightarrow> Zone option" where
  "known_zones name =
     (if name = ''UTC'' then Some utcZone
      else if name = ''Asia/Tokyo'' then Some tokyo
      else if name = ''America/New_York'' then Some new_york
      else None)"

definition known_locales :: "string \<Rightarrow> bool" where
  "known_locales l = (l = ''ja-JP'' \<or> l = ''en-US'')"

definition host :: "int \<Rightarrow> environment" where
  "host t = \<lparr> env_now = t, systemZone = system_utc, resolve = known_zones,
             acceptsLocale = known_locales \<rparr>"

definition utc_process :: local_zone where
  \<comment> \<open>LocalTZA of a process that runs on UTC.\<close>
  "utc_process = (\<lambda>_ _. 0)"

definition tokyo_process :: local_zone where
  \<comment> \<open>LocalTZA of a process that runs on Asia/Tokyo.\<close>
  "tokyo_process = (\<lambda>_ _. 540 * 60 * 1000)"

definition known_offsets :: "string \<Rightarrow> (int \<Rightarrow> int) option" where
  "known_offsets name = map_option offset (known_zones name)"

section \<open>Notions of the specification\<close>

text \<open>
  The specification's words for what the claims compare the code with: the fixed length
  of a unit in milliseconds; the magnitude of a span in a unit of fixed length, the floor
  of the elapsed milliseconds over that length; the whole calendar months and years
  elapsed between two instants, by subtraction of their calendar fields (read in UTC);
  and the instant that an ISO text with an explicit offset denotes.
\<close>

definition unit_length :: "time_unit \<Rightarrow> int" where
  "unit_length u =
     (case u of Seconds \<Rightarrow> 1000 | Minutes \<Rightarrow> 60 * 1000 | Hours \<Rightarrow> 60 * 60 * 1000
      | Days \<Rightarrow> 24 * 60 * 60 * 1000 | Weeks \<Rightarrow> 7 * 24 * 60 * 60 * 1000 | _ \<Rightarrow> 0)"

definition elapsed_floor :: "int \<Rightarrow> int \<Rightarrow> int \<Rightarrow> int" where
  \<comment> \<open>\<^verbatim>\<open>floor(elapsedMs / unitLengthMs)\<close>\<close>
  "elapsed_floor a b len = \<bar>a - b\<bar> div len"

definition whole_months :: "int \<Rightarrow> int \<Rightarrow> int" where
  \<comment> \<open>The months between the two calendar readings, less one when the later reading
      has not yet reached the day and time of the month of the earlier one.\<close>
  "whole_months a b =
     (let lo = min a b; hi = max a b;
          m = (YearFromTime hi * 12 + MonthFromTime hi) - (YearFromTime lo * 12 + MonthFromTime lo)
      in if MakeDate (DateFromTime hi) (TimeWithinDay hi) < MakeDate (DateFromTime lo) (TimeWithinDay lo)
         then m - 1 else m)"

definition whole_years :: "int \<Rightarrow> int \<Rightarrow> int" where
  "whole_years a b = whole_months a b div 12"

definition iso_instant :: "int \<Rightarrow> int \<Rightarrow> int \<Rightarrow> int \<Rightarrow> int \<Rightarrow> int \<Rightarrow> int \<Rightarrow> int \<Rightarrow> int" where
  \<comment> \<open>The time value of \<^verbatim>\<open>YYYY-MM-DDThh:mm:ss.sss\<close> followed by an offset of so many
      minutes east of UTC (0 for \<^verbatim>\<open>Z\<close>).\<close>
  "iso_instant y mo d h mi s ms off =
     MakeDate (MakeDay y (mo - 1) d) (MakeTime h mi s ms) - off * msPerMinute"
section \<open>Facts about the time arithmetic\<close>

lemma div_bounds:
  fixes a k :: int
  assumes "0 < k"
  shows "k * (a div k) \<le> a" and "a < k * (a div k) + k"
proof -
  have "a = k * (a div k) + a mod k" by simp
  moreover have "0 \<le> a mod k" "a mod k < k" using assms by simp_all
  ultimately show "k * (a div k) \<le> a" and "a < k * (a div k) + k" by linarith+
qed

lemma DayFromYear_estimate:
  "146097 * (y - 1970) - 600 \<le> 400 * DayFromYear y"
  "400 * DayFromYear y \<le> 146097 * (y - 1970) + 600"
  unfolding DayFromYear_def
  using div_bounds[of 4 "y - 1969"] div_bounds[of 100 "y - 1901"] div_bounds[of 400 "y - 1601"]
  by simp_all

lemma YearOfDay_bounds:
  "DayFromYear (YearOfDay d) \<le> d" "d < DayFromYear (YearOfDay d + 1)"
proof -
  define y where "y = 1970 + (d * 400) div 146097"
  have b: "146097 * (y - 1970) \<le> 400 * d" "400 * d < 146097 * (y - 1970) + 146097"
    using div_bounds[of 146097 "d * 400"] by (simp_all add: y_def)
  have "DayFromYear (YearOfDay d) \<le> d \<and> d < DayFromYear (YearOfDay d + 1)"
  proof (cases "DayFromYear (y + 1) \<le> d")
    case True
    then have eq: "YearOfDay d = y + 1" by (simp add: YearOfDay_def y_def Let_def)
    define D where "D = DayFromYear (y + 1 + 1)"
    have "146097 * (y - 1970) + 291594 \<le> 400 * D"
      using DayFromYear_estimate(1)[of "y + 1 + 1"] by (simp add: D_def algebra_simps)
    then have "d < D" using b by linarith
    then show ?thesis using True eq by (simp add: D_def)
  next
    case False
    show ?thesis
    proof (cases "d < DayFromYear y")
      case True
      then have eq: "YearOfDay d = y - 1" using False by (simp add: YearOfDay_def y_def Let_def)
      define D where "D = DayFromYear (y - 1)"
      have "400 * D \<le> 146097 * (y - 1970) - 145497"
        using DayFromYear_estimate(2)[of "y - 1"] by (simp add: D_def algebra_simps)
      then have "D \<le> d" using b by linarith
      then show ?thesis using True eq by (simp add: D_def)
    next
      case F2: False
      then have "YearOfDay d = y" using False by (simp add: YearOfDay_def y_def Let_def)
      then show ?thesis using False F2 by simp
    qed
  qed
  then show "DayFromYear (YearOfDay d) \<le> d" "d < DayFromYear (YearOfDay d + 1)" by simp_all
qed

lemma div_succ:
  fixes a k :: int
  assumes "0 < k"
  shows "(a + 1) div k = a div k + (if (a + 1) mod k = 0 then 1 else 0)"
proof -
  define q where "q = a div k"
  define r where "r = a mod k"
  have a: "a = k * q + r" and r: "0 \<le> r" "r < k" using assms by (simp_all add: q_def r_def)
  show ?thesis
  proof (cases "r = k - 1")
    case True
    then have e: "a + 1 = k * (q + 1) + 0" using a by (simp add: algebra_simps)
    have "(a + 1) div k = q + 1" using int_div_pos_eq[OF e] assms by simp
    moreover have "(a + 1) mod k = 0" using int_mod_pos_eq[OF e] assms by simp
    ultimately show ?thesis by (simp add: q_def)
  next
    case False
    then have e: "a + 1 = k * q + (r + 1)" and r1: "0 \<le> r + 1" "r + 1 < k" using a r by simp_all
    have "(a + 1) div k = q" using int_div_pos_eq[OF e r1] .
    moreover have "(a + 1) mod k = r + 1" using int_mod_pos_eq[OF e r1] .
    ultimately show ?thesis using r by (simp add: q_def)
  qed
qed

lemma mod_shift: "(y + 1 - 1969) mod 4 = 0 \<longleftrightarrow> (y::int) mod 4 = 0"
  "(y + 1 - 1901) mod 100 = 0 \<longleftrightarrow> (y::int) mod 100 = 0"
  "(y + 1 - 1601) mod 400 = 0 \<longleftrightarrow> (y::int) mod 400 = 0"
proof -
  have "(y + 1 - 1969) mod 4 = (y + 4 * (-492)) mod 4" by (simp add: algebra_simps)
  also have "\<dots> = y mod 4" by (rule mod_mult_self2)
  finally show "(y + 1 - 1969) mod 4 = 0 \<longleftrightarrow> (y::int) mod 4 = 0" by simp
  have "(y + 1 - 1901) mod 100 = (y + 100 * (-19)) mod 100" by (simp add: algebra_simps)
  also have "\<dots> = y mod 100" by (rule mod_mult_self2)
  finally show "(y + 1 - 1901) mod 100 = 0 \<longleftrightarrow> (y::int) mod 100 = 0" by simp
  have "(y + 1 - 1601) mod 400 = (y + 400 * (-4)) mod 400" by (simp add: algebra_simps)
  also have "\<dots> = y mod 400" by (rule mod_mult_self2)
  finally show "(y + 1 - 1601) mod 400 = 0 \<longleftrightarrow> (y::int) mod 400 = 0" by simp
qed

lemma mod_chain: "(y::int) mod 400 = 0 \<Longrightarrow> y mod 100 = 0" "(y::int) mod 100 = 0 \<Longrightarrow> y mod 4 = 0"
proof -
  have d: "(100::int) dvd 400" "(4::int) dvd 100" by simp_all
  show "y mod 400 = 0 \<Longrightarrow> y mod 100 = 0"
    using d(1) by (meson dvd_trans mod_0_imp_dvd dvd_imp_mod_0)
  show "y mod 100 = 0 \<Longrightarrow> y mod 4 = 0"
    using d(2) by (meson dvd_trans mod_0_imp_dvd dvd_imp_mod_0)
qed

lemma DayFromYear_step: "DayFromYear (y + 1) = DayFromYear y + DaysInYear y"
proof -
  have a: "(y + 1 - 1969) div 4 = (y - 1969) div 4 + (if y mod 4 = 0 then 1 else 0)"
    using div_succ[of 4 "y - 1969"] mod_shift(1)[of y] by (simp add: algebra_simps)
  have b: "(y + 1 - 1901) div 100 = (y - 1901) div 100 + (if y mod 100 = 0 then 1 else 0)"
    using div_succ[of 100 "y - 1901"] mod_shift(2)[of y] by (simp add: algebra_simps)
  have c: "(y + 1 - 1601) div 400 = (y - 1601) div 400 + (if y mod 400 = 0 then 1 else 0)"
    using div_succ[of 400 "y - 1601"] mod_shift(3)[of y] by (simp add: algebra_simps)
  show ?thesis unfolding DayFromYear_def DaysInYear_def a b c using mod_chain[of y] by auto
qed

lemma DaysInYear_pos: "365 \<le> DaysInYear y" "DaysInYear y \<le> 366"
  by (simp_all add: DaysInYear_def)

lemma DayFromYear_mono_aux: "0 \<le> k \<Longrightarrow> DayFromYear y \<le> DayFromYear (y + k)"
proof (induction k rule: int_ge_induct)
  case base
  then show ?case by simp
next
  case (step i)
  have "DayFromYear (y + (i + 1)) = DayFromYear (y + i) + DaysInYear (y + i)"
    using DayFromYear_step[of "y + i"] by (simp add: algebra_simps)
  then show ?case using step DaysInYear_pos(1)[of "y + i"] by linarith
qed

lemma DayFromYear_mono: "y \<le> y' \<Longrightarrow> DayFromYear y \<le> DayFromYear y'"
  using DayFromYear_mono_aux[of "y' - y" y] by simp

lemma YearOfDay_unique:
  assumes "DayFromYear y \<le> d" "d < DayFromYear (y + 1)"
  shows "YearOfDay d = y"
proof (rule ccontr)
  assume ne: "YearOfDay d \<noteq> y"
  define Y where "Y = YearOfDay d"
  have b: "DayFromYear Y \<le> d" "d < DayFromYear (Y + 1)" using YearOfDay_bounds[of d] by (simp_all add: Y_def)
  show False
  proof (cases "Y < y")
    case True
    then have "DayFromYear (Y + 1) \<le> DayFromYear y" by (intro DayFromYear_mono) simp
    then show False using b assms by linarith
  next
    case False
    then have "y + 1 \<le> Y" using ne by (simp add: Y_def)
    then have "DayFromYear (y + 1) \<le> DayFromYear Y" by (rule DayFromYear_mono)
    then show False using b assms by linarith
  qed
qed

lemma DayWithinYear_bounds: "0 \<le> DayWithinYear t" "DayWithinYear t < DaysInYear (YearFromTime t)"
  using YearOfDay_bounds[of "Day t"] DayFromYear_step[of "YearOfDay (Day t)"]
  by (simp_all add: DayWithinYear_def YearFromTime_def)

lemma MakeDay_fields: "MakeDay (YearFromTime t) (MonthFromTime t) (DateFromTime t) = Day t"
proof -
  define d where "d = DayWithinYear t"
  define y where "y = YearFromTime t"
  have b: "0 \<le> d" "d < DaysInYear y" using DayWithinYear_bounds[of t] by (simp_all add: d_def y_def)
  have m: "0 \<le> MonthFromTime t" "MonthFromTime t \<le> 11"
    by (simp_all add: MonthFromTime_def Let_def)
  then have dm: "MonthFromTime t div 12 = 0" "MonthFromTime t mod 12 = MonthFromTime t" by simp_all
  have "MonthStart y (MonthFromTime t) + DateFromTime t - 1 = d"
    unfolding MonthStart_def DateFromTime_def MonthFromTime_def InLeapYear_def Let_def
      d_def[symmetric] y_def[symmetric]
    by simp
  then show ?thesis
    unfolding MakeDay_def Let_def dm y_def[symmetric] by (simp add: d_def DayWithinYear_def y_def)
qed

lemma MakeDay_add: "MakeDay y m (d + n) = MakeDay y m d + n"
  by (simp add: MakeDay_def Let_def)

lemma MakeDate_split: "MakeDate (Day t) (TimeWithinDay t) = t"
  by (simp add: MakeDate_def Day_def TimeWithinDay_def)

lemma MakeTime_fields:
  "MakeTime (HourFromTime t) (MinFromTime t) (SecFromTime t) (msFromTime t) = TimeWithinDay t"
proof -
  define s where "s = t div 1000"
  define m where "m = s div 60"
  define h where "h = m div 60"
  define D where "D = h div 24"
  have m': "t div 60000 = m" using zdiv_zmult2_eq[of 60 t 1000] by (simp add: m_def s_def)
  have h': "t div 3600000 = h" using zdiv_zmult2_eq[of 60 t 60000] by (simp add: h_def m')
  have D': "t div 86400000 = D" using zdiv_zmult2_eq[of 24 t 3600000] by (simp add: D_def h')
  have e1: "t = 1000 * s + t mod 1000" by (simp add: s_def)
  have e2: "s = 60 * m + s mod 60" by (simp add: m_def)
  have e3: "m = 60 * h + m mod 60" by (simp add: h_def)
  have e4: "h = 24 * D + h mod 24" by (simp add: D_def)
  have e5: "t mod 86400000 = t - 86400000 * D" using D' by (simp add: minus_mult_div_eq_mod[symmetric] del: minus_mult_div_eq_mod)
  show ?thesis
    unfolding MakeTime_def HourFromTime_def MinFromTime_def SecFromTime_def msFromTime_def
      TimeWithinDay_def msPerHour_def msPerMinute_def msPerSecond_def msPerDay_def h' m' e5
      s_def[symmetric]
    using e1 e2 e3 e4 by linarith
qed

section \<open>Evaluation\<close>

text \<open>
  Closed instances are computed by the simplifier from the definitions. The congruence
  rules below make it compute a bound value before it enters the body that uses it.
\<close>

lemma bind_weak_cong: "x = y \<Longrightarrow> Option.bind x f = Option.bind y f"
  by simp

lemma map_option_weak_cong: "x = y \<Longrightarrow> map_option f x = map_option f y"
  by simp

lemma map_sum_weak_cong: "x = y \<Longrightarrow> map_sum f g x = map_sum f g y"
  by simp

lemma replicate_numeral: "replicate (numeral k) x = x # replicate (pred_numeral k) x"
  by (simp add: numeral_eq_Suc)

lemma floor_numeral_divide:
  "\<lfloor>(numeral a :: rat) / numeral b\<rfloor> = numeral a div numeral b"
  "\<lfloor>- (numeral a :: rat) / numeral b\<rfloor> = - numeral a div numeral b"
  using floor_divide_of_int_eq[of "numeral a" "numeral b", where ?'a = rat]
    floor_divide_of_int_eq[of "- numeral a" "numeral b", where ?'a = rat]
  by simp_all

lemma ceiling_numeral_divide:
  "\<lceil>(numeral a :: rat) / numeral b\<rceil> = - (- numeral a div numeral b)"
  "\<lceil>- (numeral a :: rat) / numeral b\<rceil> = - (numeral a div numeral b)"
  using floor_numeral_divide[of a b] by (simp_all add: ceiling_def)

lemma ceiling_minus_one: "\<lceil>- 1 :: rat\<rceil> = - 1"
  using ceiling_of_int[of "- 1", where ?'a = rat] by simp

lemma floor_minus_one: "\<lfloor>- 1 :: rat\<rfloor> = - 1"
  using floor_of_int[of "- 1", where ?'a = rat] by simp

lemmas eval_simps =
  replicate_numeral floor_numeral_divide ceiling_numeral_divide ceiling_minus_one floor_minus_one
  digit_char_def

lemmas eval_congs = let_weak_cong bind_weak_cong map_option_weak_cong map_sum_weak_cong

lemmas date_defs =
  LocalTime_def UTC_def ToIntegerOrInfinity_def getFullYear_def getMonth_def getDate_def
  getDay_def getHours_def getMinutes_def getSeconds_def getTimezoneOffset_def setSeconds_def
  setMinutes_def setHours_def setDate_def setMonth_def setFullYear_def newDate_def
  getWeekNumber_def getDayOfYear_def components_of_def context_of_def add_switch_def
  calculate_date_def getHumanReadableDiff_def human_units_def int_to_string_def asc_def
  digits.simps get_time_difference_def diff_of_def view_def effective_zone_def
  get_current_time_def utc_process_def tokyo_process_def locale_or_default_def known_locales_def

lemmas lx_defs =
  isUniversal_def zone_equals_def pad2_def fixedName_def FixedOffsetZone_def fields_of_def
  newDateOfNumber_def tsToObj_def objToLocalTS_def fixOffset_def objToTS_def isLeapYear_def
  lx_daysInYear_def lx_daysInMonth_def cal_def DateTime_trusted_def DateTime_of_def isValid_def
  toMillis_def toSeconds_def weekday_def lx_quarter_def ordinal_def isoWeekday_of_def
  firstWeekOffset_def weeksInWeekYear_def weekNumber_def orderedUnits_def zeroDuration_def
  lowOrder_def matrix_def before_def after_def as_def negate_def dur_plus_def fromObject1_def
  frac_def adjustTime_def plus_def setZone_def localTV_def dayDiff_def differ_def
  highOrderStep_def highOrderDiffs_def shiftToLow_def diff_impl_def diff_def toRelative_def
  unit_word_def grouped.simps format_en_def is_digit_def digit_val_def two_digits_def
  four_digits_def opt_two_def parseMillis_def opt_fraction_def signedOffset_def opt_offset_def
  or_default_def parseISOTime_def parseISODate_def validFields_def fromObject_def fromISO_def
  padStart_def toISODate_def toISOTime_def toISO_def timeUnits_def unit_key_def
  getHumanReadableDiff_luxon_def getDateComponents_def getDateContext_def formatDateInfo_def formatDateInfo_opt_def locale_or_default_def known_locales_def
  hasTimezone_def utcZone_def parseDateWithTimezone_def addDuration_def
  calculateDifference_def or_else_def nowIn_def calculate_date_luxon_def view_luxon_def
  get_time_difference_luxon_def ToIntegerOrInfinity_def asc_def digits.simps
  tokyo_def new_york_def system_utc_def known_zones_def host_def known_offsets_def

section \<open>Facts about calendar fields\<close>

lemma isLeapYear_iff: "isLeapYear y \<longleftrightarrow> DaysInYear y = 366"
  using mod_chain[of y] by (auto simp: isLeapYear_def DaysInYear_def)

lemma MonthFromTime_bounds: "0 \<le> MonthFromTime t" "MonthFromTime t \<le> 11"
  by (simp_all add: MonthFromTime_def Let_def)

lemma lx_daysInMonth_regular:
  assumes "1 \<le> m" "m \<le> 12"
  shows "lx_daysInMonth y m =
    (if m = 2 then (if DaysInYear y = 366 then 29 else 28)
     else if m = 4 \<or> m = 6 \<or> m = 9 \<or> m = 11 then 30 else 31)"
proof -
  have mm: "(m - 1) mod 12 + 1 = m" using assms by simp
  have my: "y + (m - m) div 12 = y" by simp
  have "m = 1 \<or> m = 2 \<or> m = 3 \<or> m = 4 \<or> m = 5 \<or> m = 6 \<or> m = 7 \<or> m = 8
    \<or> m = 9 \<or> m = 10 \<or> m = 11 \<or> m = 12" using assms by arith
  then show ?thesis
    by (elim disjE) (simp_all add: lx_daysInMonth_def Let_def isLeapYear_iff)
qed

lemma DateFromTime_bounds:
  "1 \<le> DateFromTime t" "DateFromTime t \<le> lx_daysInMonth (YearFromTime t) (MonthFromTime t + 1)"
proof -
  define d where "d = DayWithinYear t"
  define y where "y = YearFromTime t"
  have b: "0 \<le> d" "d < DaysInYear y" using DayWithinYear_bounds[of t] by (simp_all add: d_def y_def)
  have dy: "DaysInYear y = 365 \<or> DaysInYear y = 366" by (simp add: DaysInYear_def)
  show "1 \<le> DateFromTime t"
    unfolding DateFromTime_def MonthFromTime_def InLeapYear_def Let_def d_def[symmetric] y_def[symmetric]
    using b by auto
  have m: "1 \<le> MonthFromTime t + 1" "MonthFromTime t + 1 \<le> 12" using MonthFromTime_bounds[of t] by simp_all
  show "DateFromTime t \<le> lx_daysInMonth (YearFromTime t) (MonthFromTime t + 1)"
    unfolding lx_daysInMonth_regular[OF m]
    unfolding DateFromTime_def MonthFromTime_def InLeapYear_def Let_def d_def[symmetric] y_def[symmetric]
    using b dy by auto
qed

lemma objToLocalTS_fields: "objToLocalTS (fields_of t) = TimeClip t"
  by (simp add: objToLocalTS_def fields_of_def MakeDay_fields MakeTime_fields MakeDate_split)

lemma objToLocalTS_fields_day:
  "objToLocalTS ((fields_of t) \<lparr> c_day := c_day (fields_of t) + n \<rparr>) = TimeClip (t + n * msPerDay)"
proof -
  have "MakeDate (MakeDay (YearFromTime t) (MonthFromTime t) (DateFromTime t + n)) (TimeWithinDay t)
        = t + n * msPerDay"
    using MakeDate_split[of t] MakeDay_fields[of t]
      MakeDay_add[of "YearFromTime t" "MonthFromTime t" "DateFromTime t" n]
    by (simp add: MakeDate_def algebra_simps)
  then show ?thesis
    by (simp add: objToLocalTS_def fields_of_def MakeTime_fields)
qed

lemma ToIntegerOrInfinity_of_int [simp]: "ToIntegerOrInfinity (of_int n) = n"
  by (simp add: ToIntegerOrInfinity_def)

lemma frac_of_int [simp]: "frac (of_int n) = 0"
  by (simp add: frac_def)

lemma ToIntegerOrInfinity_0 [simp]: "ToIntegerOrInfinity 0 = 0"
  by (simp add: ToIntegerOrInfinity_def)

lemma frac_0 [simp]: "frac 0 = 0"
  by (simp add: frac_def)

section \<open>Facts about plus\<close>

lemma newDateOfNumber_of_int:
  "newDateOfNumber (of_int k) = (if \<bar>k\<bar> > maxTime then None else Some k)"
proof -
  have "\<bar>of_int k :: rat\<bar> > of_int maxTime \<longleftrightarrow> \<bar>k\<bar> > maxTime"
    by (metis of_int_abs of_int_less_iff)
  then show ?thesis by (simp add: newDateOfNumber_def)
qed

lemma tsToObj_of_int:
  "tsToObj (of_int k) off =
     (if \<bar>k + off * 60000\<bar> > maxTime then None else Some (fields_of (k + off * 60000)))"
proof -
  have "(of_int k :: rat) + of_int (off * 60 * 1000) = of_int (k + off * 60000)" by simp
  then show ?thesis unfolding tsToObj_def by (simp only: newDateOfNumber_of_int) simp
qed

lemma DateTime_of_int:
  "DateTime_of (of_int k) z =
     (if \<bar>k\<bar> \<le> maxTime \<and> \<bar>k + offset z k * 60000\<bar> \<le> maxTime
      then Some \<lparr> ts = of_int k, zone = z, offs = offset z k \<rparr> else None)"
  by (simp add: DateTime_of_def DateTime_trusted_def newDateOfNumber_of_int tsToObj_of_int)

lemma cal_of_int:
  "cal \<lparr> ts = of_int k, zone = z, offs = off \<rparr> = fields_of (k + off * 60000)"
proof -
  have "(of_int k :: rat) + of_int (off * 60 * 1000) = of_int (k + off * 60000)" by simp
  then show ?thesis by (simp only: cal_def DateTime.select_convs ToIntegerOrInfinity_of_int)
qed

lemma millis_time_unit:
  assumes "u \<in> {Seconds, Minutes, Hours}"
  shows "as (zeroDuration
            (DYears := frac (fromObject1 (unit_key u) (of_int n) DYears),
             DQuarters := frac (fromObject1 (unit_key u) (of_int n) DQuarters),
             DMonths := frac (fromObject1 (unit_key u) (of_int n) DMonths),
             DWeeks := frac (fromObject1 (unit_key u) (of_int n) DWeeks),
             DDays := frac (fromObject1 (unit_key u) (of_int n) DDays),
             DHours := fromObject1 (unit_key u) (of_int n) DHours,
             DMinutes := fromObject1 (unit_key u) (of_int n) DMinutes,
             DSeconds := fromObject1 (unit_key u) (of_int n) DSeconds,
             DMilliseconds := fromObject1 (unit_key u) (of_int n) DMilliseconds))
          DMilliseconds = of_int (n * unit_length u)"
  using assms
  by (auto simp: as_def before_def after_def orderedUnits_def matrix_def lowOrder_def
      fromObject1_def zeroDuration_def unit_key_def unit_length_def)

lemma millis_day_unit:
  assumes "u \<in> {Days, Weeks}"
  shows "as (zeroDuration
            (DYears := frac (fromObject1 (unit_key u) (of_int n) DYears),
             DQuarters := frac (fromObject1 (unit_key u) (of_int n) DQuarters),
             DMonths := frac (fromObject1 (unit_key u) (of_int n) DMonths),
             DWeeks := frac (fromObject1 (unit_key u) (of_int n) DWeeks),
             DDays := frac (fromObject1 (unit_key u) (of_int n) DDays),
             DHours := fromObject1 (unit_key u) (of_int n) DHours,
             DMinutes := fromObject1 (unit_key u) (of_int n) DMinutes,
             DSeconds := fromObject1 (unit_key u) (of_int n) DSeconds,
             DMilliseconds := fromObject1 (unit_key u) (of_int n) DMilliseconds))
          DMilliseconds = 0"
  using assms
  by (auto simp: as_def before_def after_def orderedUnits_def matrix_def lowOrder_def
      fromObject1_def zeroDuration_def unit_key_def)

lemma fixOffset_same:
  assumes "offset z (l - off * 60 * 1000) = off"
  shows "fixOffset l off z = (l - off * 60000, off)"
  unfolding fixOffset_def Let_def assms by simp

lemma adjustTime_time_unit:
  assumes u: "u \<in> {Seconds, Minutes, Hours}"
    and r: "\<bar>k + offset z k * 60000\<bar> \<le> maxTime"
  shows "adjustTime \<lparr> ts = of_int k, zone = z, offs = offset z k \<rparr> (fromObject1 (unit_key u) (of_int n))
         = Some (of_int (k + n * unit_length u))"
proof -
  define L where "L = k + offset z k * 60000"
  define f where "f = fields_of L"
  have day: "min (c_day f) (lx_daysInMonth (c_year f) (c_month f)) = c_day f"
    using DateFromTime_bounds(2)[of L] by (simp add: f_def fields_of_def)
  have z: "fromObject1 (unit_key u) (of_int n) DYears = 0" "fromObject1 (unit_key u) (of_int n) DMonths = 0"
    "fromObject1 (unit_key u) (of_int n) DQuarters = 0" "fromObject1 (unit_key u) (of_int n) DDays = 0"
    "fromObject1 (unit_key u) (of_int n) DWeeks = 0"
    using u by (auto simp: fromObject1_def zeroDuration_def unit_key_def)
  have c': "f \<lparr> c_year := c_year f, c_month := c_month f, c_day := c_day f \<rparr> = f" by simp
  have o: "objToLocalTS f = Some L" using r by (simp add: f_def objToLocalTS_fields TimeClip_def L_def)
  have fo: "fixOffset L (offset z k) z = (k, offset z k)"
    using fixOffset_same[of z L "offset z k"] by (simp add: L_def)
  show ?thesis
    unfolding adjustTime_def Let_def
    apply (simp only: millis_time_unit[OF u])
    apply (simp only: cal_of_int DateTime.select_convs L_def[symmetric] f_def[symmetric] z ToIntegerOrInfinity_0)
    apply (simp add: day c' o fo)
    done
qed

section \<open>Adding a fixed-length unit\<close>

lemma adjustTime_day_unit:
  assumes u: "u \<in> {Days, Weeks}"
    and c: "\<And>t. offset z t = off"
    and r: "\<bar>k + off * 60000\<bar> \<le> maxTime"
  shows "adjustTime \<lparr> ts = of_int k, zone = z, offs = off \<rparr> (fromObject1 (unit_key u) (of_int n))
         = (if \<bar>k + off * 60000 + n * unit_length u\<bar> > maxTime then None
            else Some (of_int (k + n * unit_length u)))"
proof -
  define L where "L = k + off * 60000"
  define f where "f = fields_of L"
  define m where "m = n * (if u = Days then 1 else 7)"
  have day: "min (c_day f) (lx_daysInMonth (c_year f) (c_month f)) = c_day f"
    using DateFromTime_bounds(2)[of L] by (simp add: f_def fields_of_def)
  have z: "fromObject1 (unit_key u) (of_int n) DYears = 0" "fromObject1 (unit_key u) (of_int n) DMonths = 0"
    "fromObject1 (unit_key u) (of_int n) DQuarters = 0"
    using u by (auto simp: fromObject1_def zeroDuration_def unit_key_def)
  have dw: "ToIntegerOrInfinity (fromObject1 (unit_key u) (of_int n) DDays)
            + ToIntegerOrInfinity (fromObject1 (unit_key u) (of_int n) DWeeks) * 7 = m"
    using u by (auto simp: fromObject1_def zeroDuration_def unit_key_def m_def)
  have ml: "m * msPerDay = n * unit_length u"
    using u by (auto simp: m_def unit_length_def msPerDay_def)
  have c': "f \<lparr> c_year := c_year f, c_month := c_month f, c_day := c_day f + m \<rparr>
            = f \<lparr> c_day := c_day f + m \<rparr>" by simp
  have o: "objToLocalTS (f \<lparr> c_day := c_day f + m \<rparr>) = TimeClip (L + n * unit_length u)"
    using objToLocalTS_fields_day[of L m] by (simp add: f_def ml)
  have fo: "fixOffset (k + off * 60000 + n * unit_length u) off z = (k + n * unit_length u, off)"
    using fixOffset_same[of z "k + off * 60000 + n * unit_length u" off] c by simp
  have sum: "min (c_day f) (lx_daysInMonth (c_year f) (c_month f))
             + ToIntegerOrInfinity (fromObject1 (unit_key u) (of_int n) DDays)
             + ToIntegerOrInfinity (fromObject1 (unit_key u) (of_int n) DWeeks) * 7 = c_day f + m"
    using dw day by simp
  show ?thesis
    unfolding adjustTime_def Let_def
    apply (simp only: millis_day_unit[OF u])
    apply (simp only: cal_of_int DateTime.select_convs L_def[symmetric] f_def[symmetric] z
        ToIntegerOrInfinity_0)
    apply (simp only: add_0_right mult_zero_left sum c' o)
    apply (simp add: TimeClip_def fo L_def)
    done
qed

lemma addDuration_time_unit:
  assumes u: "u \<in> {Seconds, Minutes, Hours}"
    and dt: "DateTime_of (of_int k) z = Some dt"
  shows "addDuration dt (of_int n) u = DateTime_of (of_int (k + n * unit_length u)) z"
proof -
  have v: "\<bar>k + offset z k * 60000\<bar> \<le> maxTime" and e: "dt = \<lparr> ts = of_int k, zone = z, offs = offset z k \<rparr>"
    using dt by (auto simp: DateTime_of_int split: if_splits)
  show ?thesis
    unfolding addDuration_def plus_def e adjustTime_time_unit[OF u v] by simp
qed

lemma addDuration_day_unit:
  assumes u: "u \<in> {Days, Weeks}"
    and c: "\<And>t. offset z t = off"
    and dt: "DateTime_of (of_int k) z = Some dt"
  shows "addDuration dt (of_int n) u =
           (if \<bar>k + off * 60000 + n * unit_length u\<bar> > maxTime then None
            else DateTime_of (of_int (k + n * unit_length u)) z)"
proof -
  have v: "\<bar>k + off * 60000\<bar> \<le> maxTime" and e: "dt = \<lparr> ts = of_int k, zone = z, offs = off \<rparr>"
    using dt c by (auto simp: DateTime_of_int split: if_splits)
  show ?thesis
    unfolding addDuration_def plus_def e adjustTime_day_unit[OF u c v] by simp
qed

lemma addDuration_round_trip:
  assumes u: "u \<in> {Seconds, Minutes, Hours} \<or> (u \<in> {Days, Weeks} \<and> (\<forall>t. offset z t = off))"
    and dt: "DateTime_of (of_int k) z = Some dt"
    and st: "addDuration dt (of_int n) u = Some dt'"
  shows "addDuration dt' (of_int (- n)) u = Some dt"
proof (cases "u \<in> {Seconds, Minutes, Hours}")
  case True
  have 1: "DateTime_of (of_int (k + n * unit_length u)) z = Some dt'"
    using addDuration_time_unit[OF True dt, of n] st by simp
  have "addDuration dt' (of_int (- n)) u = DateTime_of (of_int (k + n * unit_length u + (- n) * unit_length u)) z"
    by (rule addDuration_time_unit[OF True 1])
  then show ?thesis using dt by simp
next
  case False
  then have d: "u \<in> {Days, Weeks}" and c: "\<And>t. offset z t = off" using u by auto
  have v: "\<bar>k + off * 60000\<bar> \<le> maxTime"
    using dt c by (auto simp: DateTime_of_int split: if_splits)
  have 1: "DateTime_of (of_int (k + n * unit_length u)) z = Some dt'"
    using addDuration_day_unit[OF d c dt, of n] st by (simp split: if_splits)
  have "addDuration dt' (of_int (- n)) u =
          (if \<bar>k + n * unit_length u + off * 60000 + (- n) * unit_length u\<bar> > maxTime then None
           else DateTime_of (of_int (k + n * unit_length u + (- n) * unit_length u)) z)"
    by (rule addDuration_day_unit[OF d c 1])
  then show ?thesis using dt v by simp
qed

text \<open>The same for the switch of the Date-based handler, in a process zone of constant offset.\<close>

lemma add_switch_fixed:
  assumes u: "u \<in> {Seconds, Minutes, Hours, Days, Weeks}"
    and c: "\<And>t b. tza t b = off"
  shows "add_switch tza t (of_int n) u = TimeClip (t + n * unit_length u)"
proof -
  define L where "L = t + off"
  have s: "MakeDate (Day L) (MakeTime (HourFromTime L) (MinFromTime L) (SecFromTime L + n) (msFromTime L))
           = L + n * 1000"
    using MakeDate_split[of L] MakeTime_fields[of L]
    by (simp add: MakeDate_def MakeTime_def msPerSecond_def algebra_simps)
  have mi: "MakeDate (Day L) (MakeTime (HourFromTime L) (MinFromTime L + n) (SecFromTime L) (msFromTime L))
           = L + n * 60000"
    using MakeDate_split[of L] MakeTime_fields[of L]
    by (simp add: MakeDate_def MakeTime_def msPerMinute_def algebra_simps)
  have h: "MakeDate (Day L) (MakeTime (HourFromTime L + n) (MinFromTime L) (SecFromTime L) (msFromTime L))
           = L + n * 3600000"
    using MakeDate_split[of L] MakeTime_fields[of L]
    by (simp add: MakeDate_def MakeTime_def msPerHour_def algebra_simps)
  have d: "MakeDate (MakeDay (YearFromTime L) (MonthFromTime L) (DateFromTime L + m)) (TimeWithinDay L)
           = L + m * 86400000" for m
  proof -
    have "MakeDay (YearFromTime L) (MonthFromTime L) (DateFromTime L + m) = Day L + m"
      by (simp only: MakeDay_add MakeDay_fields)
    then show ?thesis
      using MakeDate_split[of L] by (simp add: MakeDate_def msPerDay_def algebra_simps)
  qed
  have q: "\<And>a b. (of_int a :: rat) + of_int b = of_int (a + b)" "\<And>b. (of_int b :: rat) * 7 = of_int (b * 7)"
    by simp_all
  from u consider "u = Seconds" | "u = Minutes" | "u = Hours" | "u = Days" | "u = Weeks" by auto
  then show ?thesis
  proof cases
    case 1
    then show ?thesis
      unfolding add_switch_def setSeconds_def getSeconds_def LocalTime_def UTC_def Let_def c
        L_def[symmetric] q ToIntegerOrInfinity_of_int
      by (simp add: s unit_length_def) (simp add: L_def mult.commute)
  next
    case 2
    then show ?thesis
      unfolding add_switch_def setMinutes_def getMinutes_def LocalTime_def UTC_def Let_def c
        L_def[symmetric] q ToIntegerOrInfinity_of_int
      by (simp add: mi unit_length_def) (simp add: L_def mult.commute)
  next
    case 3
    then show ?thesis
      unfolding add_switch_def setHours_def getHours_def LocalTime_def UTC_def Let_def c
        L_def[symmetric] q ToIntegerOrInfinity_of_int
      by (simp add: h unit_length_def) (simp add: L_def mult.commute)
  next
    case 4
    then show ?thesis
      unfolding add_switch_def setDate_def getDate_def LocalTime_def UTC_def Let_def c
        L_def[symmetric] q ToIntegerOrInfinity_of_int
      by (simp add: d unit_length_def) (simp add: L_def mult.commute)
  next
    case 5
    then show ?thesis
      unfolding add_switch_def setDate_def getDate_def LocalTime_def UTC_def Let_def c
        L_def[symmetric] q ToIntegerOrInfinity_of_int
      by (simp add: d unit_length_def) (simp add: L_def mult.commute)
  qed
qed

lemma add_switch_round_trip:
  assumes u: "u \<in> {Seconds, Minutes, Hours, Days, Weeks}"
    and c: "\<forall>t b. tza t b = off"
    and r: "\<bar>t\<bar> \<le> maxTime"
    and st: "add_switch tza t (of_int n) u = Some t'"
  shows "add_switch tza t' (of_int (- n)) u = Some t"
proof -
  have c': "\<And>t b. tza t b = off" using c by simp
  have "t' = t + n * unit_length u"
    using st add_switch_fixed[OF u c', where t = t and n = n] by (simp add: TimeClip_def split: if_splits)
  then have "add_switch tza t' (of_int (- n)) u = TimeClip t"
    using add_switch_fixed[OF u c', where t = t' and n = "- n"] by simp
  then show ?thesis using r by (simp add: TimeClip_def)
qed

section \<open>Evaluation of calendar readings\<close>

text \<open>
  The same functions with every shared value computed once, for the closed instances.
\<close>

lemma fields_of_eval:
  "fields_of t =
     (let d = t div 86400000;
          y0 = 1970 + (d * 400) div 146097;
          y = (if DayFromYear (y0 + 1) \<le> d then y0 + 1 else if d < DayFromYear y0 then y0 - 1 else y0);
          w = d - DayFromYear y;
          l = (if DaysInYear y = 366 then 1 else 0);
          m = (if w < 31 then 0 else if w < 59 + l then 1 else if w < 90 + l then 2
               else if w < 120 + l then 3 else if w < 151 + l then 4 else if w < 181 + l then 5
               else if w < 212 + l then 6 else if w < 243 + l then 7 else if w < 273 + l then 8
               else if w < 304 + l then 9 else if w < 334 + l then 10 else 11);
          dd = (if m = 0 then w + 1 else if m = 1 then w - 30 else if m = 2 then w - 58 - l
                else if m = 3 then w - 89 - l else if m = 4 then w - 119 - l
                else if m = 5 then w - 150 - l else if m = 6 then w - 180 - l
                else if m = 7 then w - 211 - l else if m = 8 then w - 242 - l
                else if m = 9 then w - 272 - l else if m = 10 then w - 303 - l else w - 333 - l)
      in \<lparr> c_year = y, c_month = m + 1, c_day = dd, c_hour = (t div 3600000) mod 24,
           c_minute = (t div 60000) mod 60, c_second = (t div 1000) mod 60,
           c_millisecond = t mod 1000 \<rparr>)"
  unfolding fields_of_def YearFromTime_def MonthFromTime_def DateFromTime_def DayWithinYear_def
    InLeapYear_def YearOfDay_def Day_def HourFromTime_def MinFromTime_def SecFromTime_def
    msFromTime_def msPerDay_def msPerHour_def msPerMinute_def msPerSecond_def Let_def
  by (rule refl)

lemma adjustTime_eval:
  "adjustTime inst dur =
     (let f = cal inst;
          year' = c_year f + ToIntegerOrInfinity (dur DYears);
          month' = c_month f + ToIntegerOrInfinity (dur DMonths) + ToIntegerOrInfinity (dur DQuarters) * 3;
          day' = min (c_day f) (lx_daysInMonth year' month') + ToIntegerOrInfinity (dur DDays)
                   + ToIntegerOrInfinity (dur DWeeks) * 7;
          millisToAdd =
            frac (dur DYears) * 31536000000 + frac (dur DQuarters) * 7862400000
            + frac (dur DMonths) * 2592000000 + frac (dur DWeeks) * 604800000
            + frac (dur DDays) * 86400000 + dur DHours * 3600000 + dur DMinutes * 60000
            + dur DSeconds * 1000 + dur DMilliseconds
      in case TimeClip (MakeDate (MakeDay year' (month' - 1) day')
                 (MakeTime (c_hour f) (c_minute f) (c_second f) (c_millisecond f))) of
           None \<Rightarrow> None
         | Some localTS \<Rightarrow> Some (of_int (fst (fixOffset localTS (offs inst) (zone inst))) + millisToAdd))"
  by (simp add: adjustTime_def Let_def objToLocalTS_def as_def before_def after_def orderedUnits_def
      matrix_def lowOrder_def zeroDuration_def algebra_simps)

lemma as_eval:
  "as d DMilliseconds =
     d DYears * 31536000000 + d DQuarters * 7862400000 + d DMonths * 2592000000
     + d DWeeks * 604800000 + d DDays * 86400000 + d DHours * 3600000 + d DMinutes * 60000
     + d DSeconds * 1000 + d DMilliseconds"
  "as d DSeconds =
     d DYears * 31536000 + d DQuarters * 7862400 + d DMonths * 2592000 + d DWeeks * 604800
     + d DDays * 86400 + d DHours * 3600 + d DMinutes * 60 + d DSeconds + d DMilliseconds / 1000"
  "as d DMinutes =
     d DYears * 525600 + d DQuarters * 131040 + d DMonths * 43200 + d DWeeks * 10080
     + d DDays * 1440 + d DHours * 60 + d DMinutes + d DSeconds / 60 + d DMilliseconds / 60000"
  "as d DHours =
     d DYears * 8760 + d DQuarters * 2184 + d DMonths * 720 + d DWeeks * 168 + d DDays * 24
     + d DHours + d DMinutes / 60 + d DSeconds / 3600 + d DMilliseconds / 3600000"
  "as d DDays =
     d DYears * 365 + d DQuarters * 91 + d DMonths * 30 + d DWeeks * 7 + d DDays
     + d DHours / 24 + d DMinutes / 1440 + d DSeconds / 86400 + d DMilliseconds / 86400000"
  "as d DWeeks =
     d DYears * 52 + d DQuarters * 13 + d DMonths * 4 + d DWeeks + d DDays / 7
     + d DHours / 168 + d DMinutes / 10080 + d DSeconds / 604800 + d DMilliseconds / 604800000"
  "as d DMonths =
     d DYears * 12 + d DQuarters * 3 + d DMonths + d DWeeks / 4 + d DDays / 30
     + d DHours / 720 + d DMinutes / 43200 + d DSeconds / 2592000 + d DMilliseconds / 2592000000"
  "as d DYears =
     d DYears + d DQuarters / 4 + d DMonths / 12 + d DWeeks / 52 + d DDays / 365
     + d DHours / 8760 + d DMinutes / 525600 + d DSeconds / 31536000
     + d DMilliseconds / 31536000000"
  by (simp_all add: as_def before_def after_def orderedUnits_def matrix_def lowOrder_def algebra_simps)

lemma getDateComponents_eval:
  "getDateComponents dt =
     (let f = cal dt; w = weekday dt
      in \<lparr> year = c_year f, month = c_month f, day = c_day f, hour = c_hour f, minute = c_minute f,
           second = c_second f, dayOfWeek = (if w = 7 then 0 else w),
           weekOfYear = Some (weekNumber dt), offset_minutes = - offs dt \<rparr>)"
  by (simp add: getDateComponents_def Let_def)

lemma toISO_eval:
  "toISO dt =
     (let f = cal dt
      in (if c_year f > 9999 \<or> c_year f < 0
          then (if c_year f < 0 then ''-'' else ''+'') @ padStart 6 (nat \<bar>c_year f\<bar>)
          else padStart 4 (nat (c_year f)))
         @ ''-'' @ padStart 2 (nat (c_month f)) @ ''-'' @ padStart 2 (nat (c_day f)) @ ''T''
         @ padStart 2 (nat (c_hour f)) @ '':'' @ padStart 2 (nat (c_minute f)) @ '':''
         @ padStart 2 (nat (c_second f)) @ ''.'' @ padStart 3 (nat (c_millisecond f))
         @ (if isUniversal (zone dt) \<and> offs dt = 0 then ''Z''
            else if offs dt < 0
            then ''-'' @ padStart 2 (nat ((- offs dt) div 60)) @ '':'' @ padStart 2 (nat ((- offs dt) mod 60))
            else ''+'' @ padStart 2 (nat (offs dt div 60)) @ '':'' @ padStart 2 (nat (offs dt mod 60))))"
  by (simp add: toISO_def toISODate_def toISOTime_def Let_def)

lemmas time_ev =
  fields_of_eval DayFromYear_def DaysInYear_def TimeClip_def MakeDate_def MakeDay_def MakeTime_def
  MonthStart_def maxTime_def msPerDay_def msPerHour_def msPerMinute_def msPerSecond_def Day_def
  WeekDay_def TimeWithinDay_def

lemmas lx_ev =
  isUniversal_def zone_equals_def pad2_def fixedName_def FixedOffsetZone_def newDateOfNumber_def
  tsToObj_def objToLocalTS_def fixOffset_def objToTS_def isLeapYear_def lx_daysInYear_def
  lx_daysInMonth_def cal_def DateTime_trusted_def DateTime_of_def isValid_def toMillis_def
  toSeconds_def weekday_def lx_quarter_def ordinal_def isoWeekday_of_def firstWeekOffset_def
  weeksInWeekYear_def weekNumber_def zeroDuration_def as_eval negate_def dur_plus_def
  fromObject1_def frac_def adjustTime_eval plus_def setZone_def localTV_def dayDiff_def differ_def
  highOrderStep_def highOrderDiffs_def shiftToLow_def matrix_def lowOrder_def diff_impl_def
  diff_def toRelative_def unit_word_def grouped.simps format_en_def is_digit_def digit_val_def
  two_digits_def four_digits_def opt_two_def parseMillis_def opt_fraction_def signedOffset_def
  opt_offset_def or_default_def parseISOTime_def parseISODate_def validFields_def fromObject_def
  fromISO_def padStart_def toISO_eval timeUnits_def unit_key_def getHumanReadableDiff_luxon_def
  getDateComponents_eval getDateContext_def formatDateInfo_def formatDateInfo_opt_def
  locale_or_default_def known_locales_def hasTimezone_def utcZone_def parseDateWithTimezone_def
  addDuration_def calculateDifference_def or_else_def nowIn_def view_luxon_def
  ToIntegerOrInfinity_def asc_def digits.simps tokyo_def new_york_def system_utc_def
  known_zones_def host_def known_offsets_def

section \<open>get\_current\_time of the Date-based implementation\<close>

text \<open>
  Claim C10. In the \<^verbatim>\<open>Date\<close>-based \<^verbatim>\<open>get_current_time\<close> every field of the components
  and context blocks is the calendar reading of the local time value \<open>t + LocalTZA(t, true)\<close>
  of the clock \<open>t\<close> in the zone of the process: year, month (from 1), day, hour, minute,
  second and weekday of that value, the weekend test on that weekday, the quarter of that
  month, and the week of the year, the day of the year and the length of the month computed
  from local midnights of that year. Neither the server's zone name nor the requested one
  occurs in them. The request decides only the \<open>requested\<close> name and, when it is not empty and
  differs from the server's, either the extra \<open>converted\<close> block (a zone the host knows: its
  wall clock, to the second, read as a time of the process's zone) or the \<open>error\<close> text (a
  name the host does not know). The only other outcome is the error answer for a locale
  that the host refuses.
\<close>

theorem get_current_time_components_local:
  "get_current_time timezone tza tzdb accepts t requestTimezone locale =
     (let l = t + tza t True;
          z = effective_zone requestTimezone timezone;
          differs = (z \<noteq> [] \<and> z \<noteq> timezone);
          jan1 = newDate tza (YearFromTime l) 0 1;
          dec31 = newDate tza (YearFromTime l) 0 0;
          last = newDate tza (YearFromTime l) (MonthFromTime l + 1) 0
      in if accepts (locale_or_default locale) then
           Inr \<lparr> current_ms = t,
                 current_unix = t div 1000,
                 timezone_part =
                   \<lparr> system = timezone,
                     requested = z,
                     tz_offset = (- tza t True) div msPerMinute,
                     converted =
                       (if differs
                        then map_option (\<lambda>off. UTC tza (((t + off t * msPerMinute) div 1000) * 1000))
                               (tzdb z)
                        else None),
                     tz_error =
                       (if differs \<and> tzdb z = None
                        then Some ([0x7121, 0x52B9, 0x306A, 0x30BF, 0x30A4, 0x30E0, 0x30BE, 0x30FC,
                                    0x30F3, 0x3A, 0x20] @ asc z)
                        else None) \<rparr>,
                 components_part =
                   \<lparr> year = YearFromTime l,
                     month = MonthFromTime l + 1,
                     day = DateFromTime l,
                     hour = HourFromTime l,
                     minute = MinFromTime l,
                     second = SecFromTime l,
                     dayOfWeek = WeekDay l,
                     weekOfYear =
                       map_option
                         (\<lambda>f. \<lceil>((of_int (t - f) :: number) / 86400000
                                 + of_int (WeekDay (f + tza f True)) + 1) / 7\<rceil>) jan1 \<rparr>,
                 context_part =
                   \<lparr> isWeekend = (WeekDay l = 0 \<or> WeekDay l = 6),
                     quarter = (MonthFromTime l + 3) div 3,
                     dayOfYear = map_option (\<lambda>s. (t - s) div 86400000) dec31,
                     daysInMonth = map_option (\<lambda>e. DateFromTime (e + tza e True)) last \<rparr> \<rparr>
         else Inl InvalidLocale)"
proof -
  have g: "getDate tza = (\<lambda>e. DateFromTime (e + tza e True))"
    by (rule ext) (simp add: getDate_def LocalTime_def)
  show ?thesis
    unfolding get_current_time_def components_of_def context_of_def getWeekNumber_def
      getDayOfYear_def getFullYear_def getMonth_def g getDay_def getHours_def getMinutes_def
      getSeconds_def getTimezoneOffset_def LocalTime_def Let_def
    by (cases "tzdb (effective_zone requestTimezone timezone)";
        cases "newDate tza (YearFromTime (t + tza t True)) 0 1";
        cases "newDate tza (YearFromTime (t + tza t True)) 0 0"; simp)
qed

text \<open>
  An instance: a process on Asia/Tokyo serving that zone, the clock at
  2025-07-09T10:30:00Z and a request for America/New\_York. The components are those of
  19:30 on Wednesday 9 July 2025 in Tokyo (week 28, day 190 of the year, a month of 31
  days); the request shows only in the \<open>requested\<close> name and the \<open>converted\<close> block, which
  holds 06:30 of that day, read as a time of the process's zone.
\<close>

theorem get_current_time_components_local_witness:
  "get_current_time ''Asia/Tokyo'' tokyo_process known_offsets known_locales 1752057000000
       (Some ''America/New_York'') None =
     Inr \<lparr> current_ms = 1752057000000,
           current_unix = 1752057000,
           timezone_part =
             \<lparr> system = ''Asia/Tokyo'', requested = ''America/New_York'', tz_offset = - 540,
               converted = Some 1752010200000, tz_error = None \<rparr>,
           components_part =
             \<lparr> year = 2025, month = 7, day = 9, hour = 19, minute = 30, second = 0,
               dayOfWeek = 3, weekOfYear = Some 28 \<rparr>,
           context_part =
             \<lparr> isWeekend = False, quarter = 3, dayOfYear = Some 190, daysInMonth = Some 31 \<rparr> \<rparr>"
  unfolding get_current_time_components_local
  by (simp add: date_defs es_defs lx_ev eval_simps Let_def cong: eval_congs)
section \<open>The scenario of one week\<close>










section \<open>Adding an amount and taking it away again\<close>

lemma ny_start:
  "DateTime_of (of_int 1709969400000) new_york
     = Some \<lparr> ts = 1709969400000, zone = new_york, offs = - 300 \<rparr>"
  by (simp add: lx_ev time_ev eval_simps Let_def cong: eval_congs)

lemma ny_forward:
  "addDuration \<lparr> ts = 1709969400000, zone = new_york, offs = - 300 \<rparr> (of_int 1) Days
     = Some \<lparr> ts = 1710055800000, zone = new_york, offs = - 240 \<rparr>"
  by (simp add: lx_ev time_ev eval_simps Let_def cong: eval_congs)

lemma ny_back:
  "addDuration \<lparr> ts = 1710055800000, zone = new_york, offs = - 240 \<rparr> (of_int (- 1)) Days
     = Some \<lparr> ts = 1709973000000, zone = new_york, offs = - 300 \<rparr>"
  by (simp add: lx_ev time_ev eval_simps Let_def cong: eval_congs)

text \<open>
  Claim C7, as stated, fails for days in a zone that changes its offset. In
  America/New\_York take 2024-03-09T07:30:00Z, which is 02:30 on the day before the clocks
  go forward. One day later is 02:30 on 10 March, a wall-clock time that does not exist:
  Luxon lands on 03:30 daylight time (2024-03-10T07:30:00Z). One day back from there is
  03:30 on 9 March, standard time: 2024-03-09T08:30:00Z, an hour after the start.
\<close>

theorem day_round_trip_counterexample:
  "DateTime_of (of_int 1709969400000) new_york
     = Some \<lparr> ts = 1709969400000, zone = new_york, offs = - 300 \<rparr> \<and>
   addDuration \<lparr> ts = 1709969400000, zone = new_york, offs = - 300 \<rparr> (of_int 1) Days
     = Some \<lparr> ts = 1710055800000, zone = new_york, offs = - 240 \<rparr> \<and>
   addDuration \<lparr> ts = 1710055800000, zone = new_york, offs = - 240 \<rparr> (of_int (- 1)) Days
     = Some \<lparr> ts = 1709973000000, zone = new_york, offs = - 300 \<rparr> \<and>
   (1709973000000 :: number) \<noteq> 1709969400000"
  using ny_start ny_forward ny_back by simp

text \<open>
  Claim C7, amended. In the Luxon-based implementation, for every instant of whole
  milliseconds shown in a zone, every integer \<open>n\<close> and every unit among seconds, minutes
  and hours, and also for days and weeks when the zone keeps one offset: if adding \<open>n\<close> units
  gives a date, then adding \<open>-n\<close> units to that date gives back the date started from. In the
  \<^verbatim>\<open>Date\<close>-based implementation the same holds for seconds, minutes, hours, days and weeks
  when the zone of the process keeps one offset, for every time value in range.
\<close>

theorem fixed_units_round_trip:
  "((u \<in> {Seconds, Minutes, Hours} \<or> (u \<in> {Days, Weeks} \<and> (\<forall>t. offset z t = off))) \<and>
    DateTime_of (of_int k) z = Some dt \<and> addDuration dt (of_int n) u = Some dt'
      \<longrightarrow> addDuration dt' (of_int (- n)) u = Some dt) \<and>
   (v \<in> {Seconds, Minutes, Hours, Days, Weeks} \<and> (\<forall>t b. tza t b = c) \<and> \<bar>t\<bar> \<le> maxTime \<and>
    add_switch tza t (of_int m) v = Some t'
      \<longrightarrow> add_switch tza t' (of_int (- m)) v = Some t)"
  using addDuration_round_trip[of u z off k dt n dt'] add_switch_round_trip[of v tza c t m t']
  by blast

lemma tokyo_start:
  "DateTime_of (of_int 1706659200000) tokyo
     = Some \<lparr> ts = 1706659200000, zone = tokyo, offs = 540 \<rparr>"
  by (simp add: lx_ev time_ev eval_simps Let_def cong: eval_congs)

lemma tokyo_forward:
  "addDuration \<lparr> ts = 1706659200000, zone = tokyo, offs = 540 \<rparr> (of_int 1) Days
     = Some \<lparr> ts = 1706745600000, zone = tokyo, offs = 540 \<rparr>"
  by (simp add: lx_ev time_ev eval_simps Let_def cong: eval_congs)

lemma hours_forward:
  "add_switch utc_process 1706659200000 (of_int 5) Hours = Some 1706677200000"
  by (simp add: date_defs es_defs eval_simps Let_def cong: eval_congs)

text \<open>
  An instance: in Asia/Tokyo, one day after 2024-01-31T00:00:00Z and one day back; in a
  process on UTC, five hours after the same instant and five hours back.
\<close>

theorem fixed_units_round_trip_witness:
  "addDuration \<lparr> ts = 1706745600000, zone = tokyo, offs = 540 \<rparr> (- 1) Days
     = Some \<lparr> ts = 1706659200000, zone = tokyo, offs = 540 \<rparr> \<and>
   add_switch utc_process 1706677200000 (- 5) Hours = Some 1706659200000"
proof -
  have z: "\<forall>t. offset tokyo t = 540" by (simp add: tokyo_def)
  have p: "\<forall>t b. utc_process t b = 0" by (simp add: utc_process_def)
  have r: "\<bar>1706659200000 :: int\<bar> \<le> maxTime" by (simp add: maxTime_def)
  have d: "Days \<in> {Days, Weeks}" and h: "Hours \<in> {Seconds, Minutes, Hours, Days, Weeks}" by simp_all
  show ?thesis
    using fixed_units_round_trip[of Days tokyo 540 1706659200000
        "\<lparr> ts = 1706659200000, zone = tokyo, offs = 540 \<rparr>" 1
        "\<lparr> ts = 1706745600000, zone = tokyo, offs = 540 \<rparr>"
        Hours utc_process 0 1706659200000 5 1706677200000]
      z p r d h tokyo_start tokyo_forward hours_forward
    by simp
qed
section \<open>The weekday of the Luxon-based components\<close>

lemma weekday_of_int:
  assumes "\<bar>k + off * 60000\<bar> \<le> maxTime"
  shows "weekday \<lparr> ts = of_int k, zone = z, offs = off \<rparr> =
           (if WeekDay (k + off * 60000) = 0 then 7 else WeekDay (k + off * 60000))"
proof -
  define l where "l = k + off * 60000"
  have b: "86400000 * (l div 86400000) \<le> l" "l < 86400000 * (l div 86400000) + 86400000"
    using div_bounds[of 86400000 l] by simp_all
  have r: "\<bar>l\<bar> \<le> 8640000000000000" using assms by (simp add: l_def maxTime_def)
  have lo: "- 100000000 \<le> l div 86400000"
  proof -
    have "(- 8640000000000000) div 86400000 \<le> l div 86400000"
      by (rule zdiv_mono1) (use r in simp_all)
    then show ?thesis by simp
  qed
  have m: "\<bar>l div 86400000 * 86400000\<bar> \<le> 8640000000000000"
    using b r lo by linarith
  have o: "objToLocalTS ((fields_of l)
             \<lparr> c_hour := 0, c_minute := 0, c_second := 0, c_millisecond := 0 \<rparr>)
           = Some (Day l * msPerDay)"
    using m MakeDay_fields[of l]
    by (simp add: objToLocalTS_def fields_of_def MakeTime_def MakeDate_def TimeClip_def
        maxTime_def Day_def msPerDay_def)
  have w: "WeekDay (Day l * msPerDay) = WeekDay l"
    by (simp add: WeekDay_def Day_def msPerDay_def)
  show ?thesis
    unfolding weekday_def cal_of_int l_def[symmetric] o by (simp add: w Let_def)
qed

lemma WeekDay_range: "0 \<le> WeekDay t \<and> WeekDay t \<le> 6"
  by (simp add: WeekDay_def)

text \<open>
  Claim C9. For every instant of whole milliseconds shown in a zone, the \<open>dayOfWeek\<close> of
  the components is the weekday of the local time value in the numbering of the language
  (\<open>WeekDay\<close>: 0 is Sunday, 6 is Saturday), so Luxon's 7 for Sunday has become 0 and the value
  lies between 0 and 6; and \<open>isWeekend\<close> holds exactly when that \<open>dayOfWeek\<close> is 0 or 6.
\<close>

theorem dayOfWeek_normalized:
  assumes "DateTime_of (of_int k) z = Some dt"
  shows "dayOfWeek (getDateComponents dt) = WeekDay (k + offset z k * 60000) \<and>
         0 \<le> dayOfWeek (getDateComponents dt) \<and> dayOfWeek (getDateComponents dt) \<le> 6 \<and>
         isWeekend (getDateContext dt) =
           (dayOfWeek (getDateComponents dt) = 0 \<or> dayOfWeek (getDateComponents dt) = 6)"
proof -
  have v: "\<bar>k + offset z k * 60000\<bar> \<le> maxTime"
    and e: "dt = \<lparr> ts = of_int k, zone = z, offs = offset z k \<rparr>"
    using assms by (auto simp: DateTime_of_int split: if_splits)
  have w: "weekday dt = (if WeekDay (k + offset z k * 60000) = 0 then 7
                         else WeekDay (k + offset z k * 60000))"
    unfolding e by (rule weekday_of_int[OF v])
  show ?thesis
    using WeekDay_range[of "k + offset z k * 60000"]
    by (auto simp: getDateComponents_def getDateContext_def w)
qed

text \<open>
  The instance of the claim: 2025-07-12T00:00:00Z, a Saturday, in zone UTC has
  \<open>dayOfWeek\<close> 6 and is a weekend day.
\<close>

theorem dayOfWeek_normalized_witness:
  "DateTime_of (of_int 1752278400000) utcZone
     = Some \<lparr> ts = 1752278400000, zone = utcZone, offs = 0 \<rparr> \<and>
   known_zones ''UTC'' = Some utcZone \<and>
   dayOfWeek (getDateComponents \<lparr> ts = 1752278400000, zone = utcZone, offs = 0 \<rparr>) = 6 \<and>
   isWeekend (getDateContext \<lparr> ts = 1752278400000, zone = utcZone, offs = 0 \<rparr>) = True"
proof -
  have s: "DateTime_of (of_int 1752278400000) utcZone
             = Some \<lparr> ts = 1752278400000, zone = utcZone, offs = 0 \<rparr>"
    using DateTime_of_int[of 1752278400000 utcZone]
    by (simp add: utcZone_def FixedOffsetZone_def maxTime_def)
  have o: "offset utcZone 1752278400000 = 0"
    by (simp add: utcZone_def FixedOffsetZone_def)
  have d: "WeekDay 1752278400000 = 6"
    by (simp add: WeekDay_def Day_def msPerDay_def)
  show ?thesis
    using dayOfWeek_normalized[OF s] s by (simp add: o d known_zones_def)
qed

end
